theory Spec2Isabelle
  imports Complex_Main "HOL-Library.AList"
begin

text \<open>
  A model of the session and dispatch engine of AzusaBot: the message dispatcher
  (\<open>extractMessageInfo\<close>, \<open>handleIncomingMessage\<close> and the \<open>messages.upsert\<close> loop), the
  command loader (\<open>loadCommands\<close>) with the reload of the watcher, and the connection manager
  (\<open>handleConnectionUpdate\<close>, \<open>removeCreds\<close>).  Module-level variables are fields of a state
  record that each function takes and returns; what a function does to the outside (logging,
  socket calls, timers, the file system, \<open>process.exit\<close>) is appended to a trace of events;
  a call that may raise returns the thrown value beside the state it has reached.
\<close>

section \<open>JavaScript strings\<close>

text \<open>
  Strings are modelled as HOL strings, that is as sequences of code units below 256 (ASCII
  and the Latin-1 supplement): \<open>trim\<close> strips the white space among them, which is the
  ASCII white space and the no-break space, and \<open>toLowerCase\<close> folds the upper case letters
  among them, which are A to Z and the accented capitals from 0xC0 to 0xDE but for the
  multiplication sign 0xD7.
\<close>

definition startsWith :: "string \<Rightarrow> string \<Rightarrow> bool" where
  "startsWith s p = (take (length p) s = p)"

definition endsWith :: "string \<Rightarrow> string \<Rightarrow> bool" where
  "endsWith s p = (length p \<le> length s \<and> drop (length s - length p) s = p)"

definition isWhiteSpace :: "char \<Rightarrow> bool" where
  "isWhiteSpace c =
     (c \<in> set [CHR '' '', CHR 0x09, CHR 0x0A, CHR 0x0B, CHR 0x0C, CHR 0x0D, CHR 0xA0])"

definition trim :: "string \<Rightarrow> string" where
  "trim s = rev (dropWhile isWhiteSpace (rev (dropWhile isWhiteSpace s)))"

definition upper_case :: string where
  "upper_case =
     ''ABCDEFGHIJKLMNOPQRSTUVWXYZ''
     @ [CHR 0xC0, CHR 0xC1, CHR 0xC2, CHR 0xC3, CHR 0xC4, CHR 0xC5, CHR 0xC6, CHR 0xC7,
       CHR 0xC8, CHR 0xC9, CHR 0xCA, CHR 0xCB, CHR 0xCC, CHR 0xCD, CHR 0xCE, CHR 0xCF,
       CHR 0xD0, CHR 0xD1, CHR 0xD2, CHR 0xD3, CHR 0xD4, CHR 0xD5, CHR 0xD6, CHR 0xD8,
       CHR 0xD9, CHR 0xDA, CHR 0xDB, CHR 0xDC, CHR 0xDD, CHR 0xDE]"

definition lower_case :: string where
  "lower_case =
     ''abcdefghijklmnopqrstuvwxyz''
     @ [CHR 0xE0, CHR 0xE1, CHR 0xE2, CHR 0xE3, CHR 0xE4, CHR 0xE5, CHR 0xE6, CHR 0xE7,
       CHR 0xE8, CHR 0xE9, CHR 0xEA, CHR 0xEB, CHR 0xEC, CHR 0xED, CHR 0xEE, CHR 0xEF,
       CHR 0xF0, CHR 0xF1, CHR 0xF2, CHR 0xF3, CHR 0xF4, CHR 0xF5, CHR 0xF6, CHR 0xF8,
       CHR 0xF9, CHR 0xFA, CHR 0xFB, CHR 0xFC, CHR 0xFD, CHR 0xFE]"

definition toLowerChar :: "char \<Rightarrow> char" where
  "toLowerChar c = (case map_of (zip upper_case lower_case) c of Some l \<Rightarrow> l | None \<Rightarrow> c)"

definition toLowerCase :: "string \<Rightarrow> string" where
  "toLowerCase s = map toLowerChar s"

text \<open>
  \<open>s.split(/ +/)\<close>: the separators are the maximal runs of spaces.  The flag says that
  the scan is inside a run; \<open>cur\<close> is the current piece, reversed.
\<close>

fun split_scan :: "bool \<Rightarrow> string \<Rightarrow> string \<Rightarrow> string list" where
  "split_scan in_sep cur [] = [rev cur]"
| "split_scan in_sep cur (c # cs) =
     (if c = CHR '' '' then
        (if in_sep then split_scan True cur cs else rev cur # split_scan True [] cs)
      else split_scan False (c # cur) cs)"

definition split_spaces :: "string \<Rightarrow> string list" where
  "split_spaces s = split_scan False [] s"

text \<open>A number inside a template literal, in decimal.\<close>

fun show_nat :: "nat \<Rightarrow> string" where
  "show_nat n =
     (if n < 10 then [''0123456789'' ! n]
      else show_nat (n div 10) @ [''0123456789'' ! (n mod 10)])"

declare show_nat.simps [simp del]

text \<open>
  \<open>x.toFixed(1)\<close> for a non-negative \<open>x\<close>: the nearest number of tenths, the larger one
  on a tie.
\<close>

definition toFixed1 :: "rat \<Rightarrow> string" where
  "toFixed1 x =
     (let n = nat \<lfloor>x * 10 + 1 / 2\<rfloor> in show_nat (n div 10) @ ''.'' @ show_nat (n mod 10))"

section \<open>Messages, thrown values and observable effects\<close>

text \<open>
  A value caught by a \<open>catch\<close> clause: whatever the handler, the import or the socket call
  has thrown or rejected with.  \<open>Error m\<close> is an object whose \<open>message\<close> property is the
  string \<open>m\<close>; \<open>NonError\<close> is any other value that has properties, whose \<open>message\<close> reads as
  \<open>undefined\<close>; \<open>Nullish\<close> is \<open>undefined\<close>, of which no property can be read (\<open>null\<close> behaves
  in the same way, with the word \<open>null\<close> in the place of \<open>undefined\<close> in the message of the
  TypeError).
\<close>

datatype thrown = Error string | NonError | Nullish

text \<open>
  \<open>err.message || "Unknown error"\<close>.  The program reaches this expression only with a value
  on which \<open>handleError\<close> has returned, so not with a nullish one.
\<close>

definition message_or_unknown :: "thrown \<Rightarrow> string" where
  "message_or_unknown e =
     (case e of Error m \<Rightarrow> (if m = [] then ''Unknown error'' else m) | _ \<Rightarrow> ''Unknown error'')"

text \<open>
  The message of the TypeError that reading property \<open>prop\<close> of an absent value raises (the
  wording for \<open>undefined\<close>), and the TypeError itself.
\<close>

definition type_error_message :: "string \<Rightarrow> string" where
  "type_error_message prop =
     ''Cannot read properties of undefined (reading '' @ [CHR 0x27] @ prop @ [CHR 0x27] @ '')''"

definition typeError_read :: "string \<Rightarrow> thrown" where
  "typeError_read prop = Error (type_error_message prop)"

text \<open>
  The message key and the message as the transport delivers them; an absent, \<open>null\<close> or
  \<open>undefined\<close> property is \<open>None\<close>.  The payload \<open>message\<close> is an object: its own keys in
  their order, each with the text that \<open>extractMessageInfo\<close> reads for that key
  (\<open>conversation\<close> itself, \<open>imageMessage?.caption\<close>, \<open>videoMessage?.caption\<close>,
  \<open>extendedTextMessage?.text\<close>, \<open>buttonsResponseMessage?.selectedButtonId\<close>,
  \<open>listResponseMessage?.singleSelectReply?.selectedRowId\<close>,
  \<open>templateButtonReplyMessage?.selectedId\<close>), \<open>None\<close> when that chain ends in a nullish value.
\<close>

record msg_key =
  remoteJid :: "string option"
  msgId :: "string option"

record wa_msg =
  key :: "msg_key option"
  message :: "(string \<times> string option) list option"
  pushName :: "string option"

record message_info =
  body :: string
  from_jid :: string
  info_pushName :: string
  isGroup :: bool
  msg_type :: string

text \<open>\<open>x || d\<close> on an optional string: an absent or empty value gives the default.\<close>

definition or_default :: "string option \<Rightarrow> string \<Rightarrow> string" where
  "or_default x d = (case x of None \<Rightarrow> d | Some v \<Rightarrow> (if v = [] then d else v))"

text \<open>The text read for a key of the payload object.\<close>

definition text_of :: "(string \<times> string option) list \<Rightarrow> string \<Rightarrow> string option" where
  "text_of kvs k = (case map_of kvs k of None \<Rightarrow> None | Some v \<Rightarrow> v)"

text \<open>The message types that the \<open>switch\<close> of \<open>extractMessageInfo\<close> has a case for.\<close>

definition recognized_types :: "string list" where
  "recognized_types =
     [''conversation'', ''imageMessage'', ''videoMessage'', ''extendedTextMessage'',
      ''buttonsResponseMessage'', ''listResponseMessage'', ''templateButtonReplyMessage'']"

text \<open>The \<open>switch\<close> of \<open>extractMessageInfo\<close> on the type of the message.\<close>

definition extract_body :: "(string \<times> string option) list \<Rightarrow> string \<Rightarrow> string" where
  "extract_body message' type =
     (if type = ''conversation'' then or_default (text_of message' ''conversation'') []
      else if type = ''imageMessage'' then or_default (text_of message' ''imageMessage'') []
      else if type = ''videoMessage'' then or_default (text_of message' ''videoMessage'') []
      else if type = ''extendedTextMessage''
        then or_default (text_of message' ''extendedTextMessage'') []
      else if type = ''buttonsResponseMessage''
        then or_default (text_of message' ''buttonsResponseMessage'') []
      else if type = ''listResponseMessage''
        then or_default (text_of message' ''listResponseMessage'') []
      else if type = ''templateButtonReplyMessage''
        then or_default (text_of message' ''templateButtonReplyMessage'') []
      else [])"

definition unknown_info :: message_info where
  "unknown_info =
     \<lparr>body = [], from_jid = [], info_pushName = ''Unknown'', isGroup = False, msg_type = []\<rparr>"

definition extractMessageInfo :: "wa_msg option \<Rightarrow> message_info" where
  "extractMessageInfo msg =
     (case msg of
        None \<Rightarrow> unknown_info
      | Some m \<Rightarrow>
          (case key m of
             None \<Rightarrow> unknown_info
           | Some k \<Rightarrow>
               (case remoteJid k of
                  None \<Rightarrow> unknown_info
                | Some jid \<Rightarrow>
                    if jid = [] then unknown_info
                    else
                      (let message' = (case message m of None \<Rightarrow> [] | Some kvs \<Rightarrow> kvs);
                           type = (case message' of [] \<Rightarrow> [] | (k0, _) # _ \<Rightarrow> k0)
                       in \<lparr>body = extract_body message' type, from_jid = jid,
                            info_pushName = or_default (pushName m) ''User'',
                            isGroup = endsWith jid ''@g.us'', msg_type = type\<rparr>))))"

section \<open>Command handlers and the transport\<close>

text \<open>
  The default export of a handler definition unit.  \<open>execute\<close> is the entry point: given the
  message and the parsed arguments it either completes (\<open>None\<close>) or raises.  What a handler
  does on the network by itself is not part of this model.
\<close>

datatype aliases_value = NoAliases | NotAnArray | AliasArray "string list"

record command =
  name :: "string option"
  aliases :: aliases_value
  execute :: "(wa_msg \<Rightarrow> string list \<Rightarrow> thrown option) option"

text \<open>
  The socket, as far as the dispatcher uses it: each call either completes or raises.
  \<open>groupMetadata\<close> returns the \<open>subject\<close> of the group, if it has one.
\<close>

record sock =
  readMessages :: "msg_key \<Rightarrow> thrown option"
  groupMetadata :: "string \<Rightarrow> thrown + string option"
  sendMessage :: "string \<Rightarrow> string \<Rightarrow> thrown option"

text \<open>
  Everything the program does to the outside, in the order it does it.  \<open>Log t m\<close> is
  \<open>AzusaLog.log\<close> with type \<open>t\<close> and message \<open>m\<close> (colour codes left out).
\<close>

datatype event =
    Log string string
  | CacheSet string
  | ReadMessages msg_key
  | GroupMetadata string
  | Execute command wa_msg "string list"
  | SendMessage string string
  | Unlink string
  | ScheduleReconnect rat
  | Exit nat

text \<open>
  \<open>Logger.handleError(error, customMessage)\<close>.  It builds its line from \<open>error.message\<close>:
  for an object it logs the line (\<open>error_line\<close>, with the message of an \<open>Error\<close> and with
  \<open>undefined\<close> for another object); for \<open>null\<close> or \<open>undefined\<close> reading the property
  raises a TypeError, whose message is the \<open>Inl\<close> result, and nothing is logged.
\<close>

definition error_line :: "string \<Rightarrow> string \<Rightarrow> event" where
  "error_line customMessage m = Log ''danger'' (customMessage @ '': '' @ m)"

definition handleError :: "thrown \<Rightarrow> string \<Rightarrow> string + event" where
  "handleError e customMessage =
     (case e of
        Error m \<Rightarrow> Inr (error_line customMessage m)
      | NonError \<Rightarrow> Inr (error_line customMessage ''undefined'')
      | Nullish \<Rightarrow> Inl (type_error_message ''message''))"

section \<open>The dedup cache\<close>

text \<open>
  \<open>processedMessagesCache\<close> is a NodeCache with \<open>stdTTL\<close> 3600 seconds: \<open>set\<close> stores the key
  with the expiry time \<open>now + 3600000\<close> ms, and \<open>has\<close> holds for a stored key whose expiry
  time is not before \<open>now\<close>.  The cache is a map from the stored keys to their expiry time.

  NodeCache keeps its entries as properties of a plain object and \<open>has\<close> looks the key up
  with \<open>this.data[key]\<close>.  For a key that is not stored and names a member of
  \<open>Object.prototype\<close> the lookup gives that member, which has no expiry time and is taken
  for an entry that never expires: \<open>has\<close> holds for such a key from the start.  The
  dispatcher calls \<open>set\<close> only with a key for which \<open>has\<close> does not hold.
\<close>

type_synonym cache = "string \<rightharpoonup> nat"

definition stdTTL_ms :: nat where
  "stdTTL_ms = 3600 * 1000"

definition object_prototype_members :: "string list" where
  "object_prototype_members =
     [''constructor'', ''__defineGetter__'', ''__defineSetter__'', ''hasOwnProperty'',
      ''__lookupGetter__'', ''__lookupSetter__'', ''isPrototypeOf'', ''propertyIsEnumerable'',
      ''toString'', ''valueOf'', ''__proto__'', ''toLocaleString'']"

definition cache_has :: "cache \<Rightarrow> nat \<Rightarrow> string \<Rightarrow> bool" where
  "cache_has c now k =
     (case c k of None \<Rightarrow> k \<in> set object_prototype_members | Some t \<Rightarrow> now \<le> t)"

definition cache_set :: "cache \<Rightarrow> nat \<Rightarrow> string \<Rightarrow> cache" where
  "cache_set c now k = c(k \<mapsto> now + stdTTL_ms)"

section \<open>The message dispatcher\<close>

text \<open>
  The module-level variables the dispatcher works on.  \<open>commands\<close> is a JavaScript \<open>Map\<close>:
  the entries in insertion order, each key once; \<open>map_of\<close> is \<open>get\<close>, and \<open>set\<close> is
  \<open>AList.update\<close>, which replaces the value of a key that is there and appends a new key.
\<close>

record bot_state =
  processedMessagesCache :: cache
  commands :: "(string \<times> command) list"
  trace :: "event list"

definition emit :: "event \<Rightarrow> bot_state \<Rightarrow> bot_state" where
  "emit e s = s\<lparr>trace := trace s @ [e]\<rparr>"

text \<open>\<open>prefixes.find(p => body.startsWith(p))\<close>\<close>

definition find_prefix :: "string list \<Rightarrow> string \<Rightarrow> string option" where
  "find_prefix prefixes b = find (\<lambda>p. startsWith b p) prefixes"

text \<open>
  The \<open>try\<close> around \<open>commandFile.execute\<close> with its \<open>catch\<close>.  The \<open>catch\<close> block calls
  \<open>handleError\<close> twice; when one of the calls raises, the block is left with that TypeError,
  whose message is the first component of the result.
\<close>

definition run_command ::
  "sock \<Rightarrow> wa_msg \<Rightarrow> string \<Rightarrow> string \<Rightarrow> command \<Rightarrow> string list \<Rightarrow> bot_state
     \<Rightarrow> string option \<times> bot_state" where
  "run_command sk m from' cmd commandFile args s =
     (let (outcome, s1) =
            (case execute commandFile of
               None \<Rightarrow> (Some (Error ''commandFile.execute is not a function''), s)
             | Some f \<Rightarrow> (f m args, emit (Execute commandFile m args) s))
      in case outcome of
           None \<Rightarrow> (None, s1)
         | Some err \<Rightarrow>
             (case handleError err (''Error executing command '' @ cmd) of
                Inl t \<Rightarrow> (Some t, s1)
              | Inr line \<Rightarrow>
                  (let s2 = emit line s1;
                       text = ''Error executing command: '' @ message_or_unknown err;
                       s3 = emit (SendMessage from' text) s2
                   in case sendMessage sk from' text of
                        None \<Rightarrow> (None, s3)
                      | Some sendErr \<Rightarrow>
                          (case handleError sendErr ''Failed to send error message'' of
                             Inl t \<Rightarrow> (Some t, s3)
                           | Inr line' \<Rightarrow> (None, emit line' s3)))))"

text \<open>
  The lines that turn the body into a command name and its arguments: the first configured
  prefix the body starts with is cut off, the rest is trimmed and split at runs of spaces,
  and the first piece, in lower case, is the command.  \<open>None\<close> when the \<open>if\<close> on
  \<open>usedPrefix\<close> or the one on \<open>command\<close> fails.
\<close>

definition parse_command :: "string list \<Rightarrow> string \<Rightarrow> (string \<times> string list) option" where
  "parse_command prefixes b =
     (case find_prefix prefixes b of
        None \<Rightarrow> None
      | Some usedPrefix \<Rightarrow>
          if usedPrefix = [] then None
          else
            (let args0 = split_spaces (trim (drop (length usedPrefix) b));
                 cmd = (case args0 of [] \<Rightarrow> [] | a # _ \<Rightarrow> toLowerCase a);
                 args = tl args0
             in if cmd = [] then None else Some (cmd, args)))"

text \<open>
  The lines from \<open>// Process command\<close> to the end of the outer \<open>try\<close>; the first component
  of the result is the message of the TypeError that \<open>run_command\<close> was left with, if any.
\<close>

definition process_command ::
  "string list \<Rightarrow> sock \<Rightarrow> wa_msg \<Rightarrow> message_info \<Rightarrow> bot_state \<Rightarrow> string option \<times> bot_state" where
  "process_command prefixes sk m info s =
     (case parse_command prefixes (body info) of
        None \<Rightarrow> (None, s)
      | Some (cmd, args) \<Rightarrow>
          (case map_of (commands s) cmd of
             None \<Rightarrow> (None, s)
           | Some commandFile \<Rightarrow>
               (let (groupName, s1) =
                      (if isGroup info then
                         (case groupMetadata sk (from_jid info) of
                            Inl _ \<Rightarrow> (''Unknown Group'', emit (GroupMetadata (from_jid info)) s)
                          | Inr subject \<Rightarrow>
                              (or_default subject ''Unknown Group'',
                               emit (GroupMetadata (from_jid info)) s))
                       else ([], s));
                    chatContext = (if isGroup info then groupName else ''Private Chat'');
                    s2 = emit (Log ''success''
                                (cmd @ '' from '' @ info_pushName info @ '' in '' @ chatContext)) s1
                in run_command sk m (from_jid info) cmd commandFile args s2)))"

text \<open>
  The body of the outer \<open>try\<close>: the state reached, and the value thrown out of the body if
  it did not complete.
\<close>

definition handleIncomingMessage_try ::
  "string list \<Rightarrow> nat \<Rightarrow> sock \<Rightarrow> wa_msg option \<Rightarrow> bot_state \<Rightarrow> thrown option \<times> bot_state" where
  "handleIncomingMessage_try prefixes now sk msg s =
     (case msg of
        None \<Rightarrow> (None, s)
      | Some m \<Rightarrow>
          (case message m of
             None \<Rightarrow> (None, s)
           | Some _ \<Rightarrow>
               (case key m of
                  None \<Rightarrow> (Some (typeError_read ''remoteJid''), s)
                | Some k \<Rightarrow>
                    if remoteJid k = Some ''status@broadcast'' then (None, s)
                    else
                      (case msgId k of
                         None \<Rightarrow> (Some (typeError_read ''startsWith''), s)
                       | Some messageId \<Rightarrow>
                           if startsWith messageId ''BAE5'' \<and> length messageId = 16 then (None, s)
                           else if cache_has (processedMessagesCache s) now messageId then
                             (None, emit (Log ''info'' ''Received Duplicate Message, Skipping!'') s)
                           else
                             (let s1 = emit (CacheSet messageId)
                                         (s\<lparr>processedMessagesCache :=
                                               cache_set (processedMessagesCache s) now messageId\<rparr>);
                                  s2 = emit (ReadMessages k) s1
                              in case readMessages sk k of
                                   Some e \<Rightarrow> (Some e, s2)
                                 | None \<Rightarrow>
                                     (let info = extractMessageInfo msg
                                      in if body info = [] \<or> from_jid info = [] then (None, s2)
                                         else
                                           (case process_command prefixes sk m info s2 of
                                              (None, s3) \<Rightarrow> (None, s3)
                                            | (Some t, s3) \<Rightarrow> (Some (Error t), s3))))))))"

text \<open>
  The whole of \<open>handleIncomingMessage\<close>: the outer \<open>try\<close> with its \<open>catch\<close>, which hands the
  caught value to \<open>handleError\<close>.  When that call raises, the promise of
  \<open>handleIncomingMessage\<close> is rejected with the TypeError, whose message is the first
  component of the result; otherwise the call returns and the component is \<open>None\<close>.
\<close>

definition handleIncomingMessage_result ::
  "string list \<Rightarrow> nat \<Rightarrow> sock \<Rightarrow> wa_msg option \<Rightarrow> bot_state \<Rightarrow> string option \<times> bot_state" where
  "handleIncomingMessage_result prefixes now sk msg s =
     (case handleIncomingMessage_try prefixes now sk msg s of
        (None, s') \<Rightarrow> (None, s')
      | (Some err, s') \<Rightarrow>
          (case handleError err ''Error processing message'' of
             Inl t \<Rightarrow> (Some t, s')
           | Inr line \<Rightarrow> (None, emit line s')))"

text \<open>The state in which a call of \<open>handleIncomingMessage\<close> leaves the process.\<close>

definition handleIncomingMessage ::
  "string list \<Rightarrow> nat \<Rightarrow> sock \<Rightarrow> wa_msg option \<Rightarrow> bot_state \<Rightarrow> bot_state" where
  "handleIncomingMessage prefixes now sk msg s =
     snd (handleIncomingMessage_result prefixes now sk msg s)"

text \<open>
  The \<open>messages.upsert\<close> branch of the event processor: the messages of one batch are
  handled one after the other, each at its own time; \<open>processedMessageIds\<close> is the set of
  identifiers already seen in this batch.  A call of \<open>handleIncomingMessage\<close> that is
  rejected ends the loop: the \<open>catch\<close> around the loop logs the TypeError and the rest of the
  batch is not handled.
\<close>

definition truthy_id :: "wa_msg \<Rightarrow> string option" where
  "truthy_id m =
     (case key m of
        None \<Rightarrow> None
      | Some k \<Rightarrow> (case msgId k of None \<Rightarrow> None | Some i \<Rightarrow> if i = [] then None else Some i))"

fun upsert_loop ::
  "string list \<Rightarrow> sock \<Rightarrow> string list \<Rightarrow> (nat \<times> wa_msg) list \<Rightarrow> bot_state
     \<Rightarrow> string option \<times> bot_state" where
  "upsert_loop prefixes sk processedMessageIds [] s = (None, s)"
| "upsert_loop prefixes sk processedMessageIds ((now, m) # rest) s =
     (let seen = (case truthy_id m of None \<Rightarrow> False | Some i \<Rightarrow> i \<in> set processedMessageIds);
          ids = (case truthy_id m of None \<Rightarrow> processedMessageIds | Some i \<Rightarrow> i # processedMessageIds)
      in if seen then upsert_loop prefixes sk processedMessageIds rest s
         else
           (case handleIncomingMessage_result prefixes now sk (Some m) s of
              (Some t, s') \<Rightarrow> (Some t, s')
            | (None, s') \<Rightarrow> upsert_loop prefixes sk ids rest s'))"

definition messages_upsert ::
  "string list \<Rightarrow> sock \<Rightarrow> string \<Rightarrow> (nat \<times> wa_msg) list \<Rightarrow> bot_state \<Rightarrow> bot_state" where
  "messages_upsert prefixes sk upsert_type msgs s =
     (if msgs = [] \<or> upsert_type \<noteq> ''notify'' then s
      else
        (case upsert_loop prefixes sk [] msgs s of
           (None, s') \<Rightarrow> s'
         | (Some t, s') \<Rightarrow> emit (error_line ''Error in messages.upsert handler'' t) s'))"

section \<open>The command loader\<close>

text \<open>
  What \<open>loadCommands\<close> finds on disk.  The directory is missing (with the outcome of
  \<open>mkdirSync\<close>), or listing it fails, or it lists its entries in order, each with what
  importing it gives: the import raises, or it yields a module with or without a default
  export.  A failure of the file system is an \<open>Error\<close> object, given by its message; what an
  import raises is whatever the module throws.
\<close>

datatype import_result = ImportThrows thrown | Module "command option"

datatype commands_dir =
    DirMissing "string option"
  | DirUnreadable string
  | DirListing "(string \<times> import_result) list"

definition invalid_structure :: "string \<Rightarrow> event" where
  "invalid_structure file = Log ''warning'' (''Invalid command structure in '' @ file @ ''. Skipping...'')"

text \<open>
  The body of the \<open>for\<close> loop over the files, for one file.  When \<open>handleError\<close> raises in
  the \<open>catch\<close> of the body, the body is left with that TypeError, whose message is the first
  component of the result.
\<close>

definition load_file ::
  "string \<times> import_result \<Rightarrow> (string \<times> command) list \<times> event list
     \<Rightarrow> string option \<times> (string \<times> command) list \<times> event list" where
  "load_file fr acc =
     (case fr of (file, r) \<Rightarrow>
      (case acc of (cmds, evs) \<Rightarrow>
       (case r of
          ImportThrows e \<Rightarrow>
            (case handleError e (''Failed to load command file: '' @ file) of
               Inl t \<Rightarrow> (Some t, cmds, evs)
             | Inr line \<Rightarrow> (None, cmds, evs @ [line]))
        | Module None \<Rightarrow> (None, cmds, evs @ [invalid_structure file])
        | Module (Some c) \<Rightarrow>
            (case name c of
               None \<Rightarrow> (None, cmds, evs @ [invalid_structure file])
             | Some n \<Rightarrow>
                 if n = [] \<or> execute c = None then (None, cmds, evs @ [invalid_structure file])
                 else
                   (let cmds1 = AList.update n c cmds
                    in case aliases c of
                         AliasArray as \<Rightarrow>
                           (None, fold (\<lambda>alias m. AList.update alias c m) as cmds1, evs)
                       | _ \<Rightarrow> (None, cmds1, evs))))))"

text \<open>The \<open>for\<close> loop: a body that is left with a TypeError ends it.\<close>

fun load_files ::
  "(string \<times> import_result) list \<Rightarrow> (string \<times> command) list \<times> event list
     \<Rightarrow> string option \<times> (string \<times> command) list \<times> event list" where
  "load_files [] acc = (None, acc)"
| "load_files (fr # rest) acc =
     (case load_file fr acc of
        (Some t, acc') \<Rightarrow> (Some t, acc')
      | (None, acc') \<Rightarrow> load_files rest acc')"

text \<open>
  \<open>loadCommands\<close>.  Its outer \<open>catch\<close> meets a failure of the file system or the TypeError
  that ended the loop, logs it and lets the function return the map as it is then.
\<close>

definition loadCommands :: "string \<Rightarrow> commands_dir \<Rightarrow> (string \<times> command) list \<times> event list" where
  "loadCommands absCommandsDir d =
     (case d of
        DirMissing mk \<Rightarrow>
          (let evs = [Log ''warning'' (''Commands directory not found: '' @ absCommandsDir)]
           in case mk of
                Some e \<Rightarrow> ([], evs @ [error_line ''Error loading commands'' e])
              | None \<Rightarrow> ([], evs @ [Log ''info'' (''Created commands directory: '' @ absCommandsDir)]))
      | DirUnreadable e \<Rightarrow> ([], [error_line ''Error loading commands'' e])
      | DirListing entries \<Rightarrow>
          (let files = filter (\<lambda>(file, _). endsWith file ''.js'') entries
           in case load_files files
                     ([], [Log ''info'' (''Found '' @ show_nat (length files) @ '' command files'')]) of
                (None, cmds, evs) \<Rightarrow> (cmds, evs)
              | (Some t, cmds, evs) \<Rightarrow> (cmds, evs @ [error_line ''Error loading commands'' t])))"

text \<open>
  The timer callback of \<open>setupCommandWatcher\<close>.  \<open>loadCommands\<close> catches every fault itself
  and always returns a map, so the assignment is always reached and the \<open>catch\<close> of the
  callback is not.
\<close>

definition reload_commands :: "string \<Rightarrow> commands_dir \<Rightarrow> bot_state \<Rightarrow> bot_state" where
  "reload_commands absCommandsDir d s =
     (case loadCommands absCommandsDir d of (newCommands, evs) \<Rightarrow>
        emit (Log ''success''
               (''Commands reloaded successfully. Total: '' @ show_nat (length newCommands)))
          (s\<lparr>commands := newCommands, trace := trace s @ evs\<rparr>))"

section \<open>The connection manager\<close>

text \<open>
  The session folder as \<open>removeCreds\<close> meets it: listing it fails, or it lists its files,
  each with the outcome that \<open>unlink\<close> has on it (\<open>None\<close>: the file is removed).  A failure
  of the file system is an \<open>Error\<close> object, given by its message.
\<close>

datatype session_dir =
    SessionUnreadable string
  | SessionFiles "(string \<times> string option) list"

text \<open>
  The loop of \<open>removeCreds\<close>: whether every file was removed, the files that are left, and
  the effects.  The first \<open>unlink\<close> that raises ends the loop.
\<close>

fun unlink_files ::
  "(string \<times> string option) list \<Rightarrow> bool \<times> (string \<times> string option) list \<times> event list" where
  "unlink_files [] = (True, [], [])"
| "unlink_files ((file, None) # rest) =
     (case unlink_files rest of (ok, left, evs) \<Rightarrow> (ok, left, Unlink file # evs))"
| "unlink_files ((file, Some e) # rest) =
     (False, (file, Some e) # rest, [error_line ''Failed to remove credentials'' e])"

definition removeCreds :: "session_dir \<Rightarrow> bool \<times> session_dir \<times> event list" where
  "removeCreds d =
     (case d of
        SessionUnreadable e \<Rightarrow> (False, d, [error_line ''Failed to remove credentials'' e])
      | SessionFiles files \<Rightarrow>
          (case unlink_files files of (ok, left, evs) \<Rightarrow> (ok, SessionFiles left, evs)))"

datatype connection = Close | Connecting | Open | OtherConnection

text \<open>
  A \<open>connection.update\<close> event: \<open>connection\<close>, and \<open>statusCode\<close> and \<open>reason\<close> for
  \<open>lastDisconnect?.error?.output?.statusCode\<close> and \<open>lastDisconnect?.error?.message\<close>.
\<close>

record connection_update =
  connection :: connection
  statusCode :: "nat option"
  reason :: "string option"

record conn_state =
  reconnectAttempts :: nat
  sessionFolder :: session_dir
  conn_trace :: "event list"
  exitCode :: "nat option"

definition MAX_RECONNECT_ATTEMPTS :: nat where
  "MAX_RECONNECT_ATTEMPTS = 10"

definition MAX_RECONNECT_DELAY :: rat where
  "MAX_RECONNECT_DELAY = 60000"

definition conn_emit :: "event \<Rightarrow> conn_state \<Rightarrow> conn_state" where
  "conn_emit e s = s\<lparr>conn_trace := conn_trace s @ [e]\<rparr>"

text \<open>\<open>process.exit(code)\<close>\<close>

definition process_exit :: "nat \<Rightarrow> conn_state \<Rightarrow> conn_state" where
  "process_exit code s = (conn_emit (Exit code) s)\<lparr>exitCode := Some code\<rparr>"

text \<open>
  \<open>Math.min(1000 * Math.pow(1.5, reconnectAttempts), MAX_RECONNECT_DELAY)\<close>, in
  milliseconds.  For the attempts 1 to 10 the powers of 1.5 and their products with 1000 are
  binary fractions that a double holds exactly, so the delay is computed over the rationals.
\<close>

definition reconnect_delay :: "nat \<Rightarrow> rat" where
  "reconnect_delay attempts = min (1000 * (3 / 2) ^ attempts) MAX_RECONNECT_DELAY"

text \<open>
  \<open>handleConnectionUpdate\<close>; \<open>loggedOut\<close> is \<open>DisconnectReason.loggedOut\<close> of the transport
  library.  None of the statements of its \<open>try\<close> block raises (\<open>removeCreds\<close> catches the
  failures of the file system itself), so its \<open>catch\<close> is not entered.
\<close>

definition handleConnectionUpdate ::
  "nat \<Rightarrow> connection_update option \<Rightarrow> conn_state \<Rightarrow> conn_state" where
  "handleConnectionUpdate loggedOut update s =
     (case (case update of None \<Rightarrow> OtherConnection | Some u \<Rightarrow> connection u) of
        Close \<Rightarrow>
          (let sc = (case update of None \<Rightarrow> None | Some u \<Rightarrow> statusCode u);
               code = (case sc of None \<Rightarrow> 500 | Some c \<Rightarrow> if c = 0 then 500 else c);
               why = or_default (case update of None \<Rightarrow> None | Some u \<Rightarrow> reason u) ''Unknown'';
               s1 = conn_emit (Log ''danger''
                      (''Connection closed. Status: '' @ show_nat code @ ''. Reason: '' @ why)) s
           in if code = loggedOut \<or> code = 401 \<or> code = 403 then
                (let s2 = conn_emit (Log ''error''
                            ''Session has been terminated. Please re-authenticate.'') s1
                 in case removeCreds (sessionFolder s2) of (credsRemoved, folder, evs) \<Rightarrow>
                      (let s3 = s2\<lparr>sessionFolder := folder, conn_trace := conn_trace s2 @ evs\<rparr>;
                           s4 = (if credsRemoved
                                 then conn_emit (Log ''info'' ''Credentials removed successfully.'') s3
                                 else s3)
                       in process_exit 1 s4))
              else if reconnectAttempts s1 < MAX_RECONNECT_ATTEMPTS then
                (let s2 = s1\<lparr>reconnectAttempts := reconnectAttempts s1 + 1\<rparr>;
                     delay = reconnect_delay (reconnectAttempts s2);
                     s3 = conn_emit (Log ''warning''
                            (''Reconnecting in '' @ toFixed1 (delay / 1000) @ ''s (attempt ''
                             @ show_nat (reconnectAttempts s2) @ ''/''
                             @ show_nat MAX_RECONNECT_ATTEMPTS @ '')...'')) s2
                 in conn_emit (ScheduleReconnect delay) s3)
              else
                process_exit 1
                  (conn_emit (Log ''danger''
                     ''Maximum reconnection attempts exceeded. Exiting process.'') s1))
      | Connecting \<Rightarrow> conn_emit (Log ''info'' ''Connecting to WhatsApp...'') s
      | Open \<Rightarrow>
          conn_emit (Log ''success'' ''Bot successfully connected to WhatsApp.'')
            (s\<lparr>reconnectAttempts := 0\<rparr>)
      | OtherConnection \<Rightarrow> s)"

text \<open>
  A sequence of \<open>connection.update\<close> events, in the order they arrive; a process that has
  exited handles no further event.
\<close>

fun connection_updates ::
  "nat \<Rightarrow> connection_update option list \<Rightarrow> conn_state \<Rightarrow> conn_state" where
  "connection_updates loggedOut [] s = s"
| "connection_updates loggedOut (u # us) s =
     (if exitCode s \<noteq> None then s
      else connection_updates loggedOut us (handleConnectionUpdate loggedOut u s))"

definition scheduled_delays :: "event list \<Rightarrow> rat list" where
  "scheduled_delays evs = concat (map (\<lambda>e. case e of ScheduleReconnect d \<Rightarrow> [d] | _ \<Rightarrow> []) evs)"

section \<open>Predicates and sample inputs used in the statements\<close>

text \<open>
  A message gets past the early returns of \<open>handleIncomingMessage\<close>, the dedup check
  included: it has a payload and a key \<open>k\<close> with identifier \<open>i\<close>, it is not a status
  broadcast, \<open>i\<close> does not have the reserved shape, and \<open>has\<close> of the dedup cache does not
  hold for \<open>i\<close> at time \<open>now\<close>.
\<close>

definition passes_filters :: "nat \<Rightarrow> bot_state \<Rightarrow> wa_msg \<Rightarrow> msg_key \<Rightarrow> string \<Rightarrow> bool" where
  "passes_filters now s m k i =
     (message m \<noteq> None \<and> key m = Some k \<and> remoteJid k \<noteq> Some ''status@broadcast''
      \<and> msgId k = Some i \<and> \<not> (startsWith i ''BAE5'' \<and> length i = 16)
      \<and> \<not> cache_has (processedMessagesCache s) now i)"

definition is_Execute :: "event \<Rightarrow> bool" where
  "is_Execute e = (case e of Execute _ _ _ \<Rightarrow> True | _ \<Rightarrow> False)"

definition is_ReadMessages :: "event \<Rightarrow> bool" where
  "is_ReadMessages e = (case e of ReadMessages _ \<Rightarrow> True | _ \<Rightarrow> False)"

definition is_SendMessage :: "event \<Rightarrow> bool" where
  "is_SendMessage e = (case e of SendMessage _ _ \<Rightarrow> True | _ \<Rightarrow> False)"

definition is_ScheduleReconnect :: "event \<Rightarrow> bool" where
  "is_ScheduleReconnect e = (case e of ScheduleReconnect _ \<Rightarrow> True | _ \<Rightarrow> False)"

text \<open>A text message in chat \<open>jid\<close> with identifier \<open>i\<close> and text \<open>b\<close>.\<close>

definition text_msg :: "string \<Rightarrow> string \<Rightarrow> string \<Rightarrow> wa_msg" where
  "text_msg jid i b =
     \<lparr>key = Some \<lparr>remoteJid = Some jid, msgId = Some i\<rparr>,
      message = Some [(''conversation'', Some b)], pushName = Some ''Ann''\<rparr>"

text \<open>A socket on which every call completes, and one on which every call raises.\<close>

definition quiet_sock :: sock where
  "quiet_sock =
     \<lparr>readMessages = (\<lambda>_. None), groupMetadata = (\<lambda>_. Inr (Some ''Group'')),
      sendMessage = (\<lambda>_ _. None)\<rparr>"

definition broken_sock :: sock where
  "broken_sock =
     \<lparr>readMessages = (\<lambda>_. None), groupMetadata = (\<lambda>_. Inl (Error ''timeout'')),
      sendMessage = (\<lambda>_ _. Some (Error ''closed''))\<rparr>"

text \<open>
  A handler with name \<open>yt\<close> and alias \<open>ytdl\<close> that completes, one that raises an error, and
  one that rejects with \<open>undefined\<close>.
\<close>

definition yt_command :: command where
  "yt_command = \<lparr>name = Some ''yt'', aliases = AliasArray [''ytdl''], execute = Some (\<lambda>_ _. None)\<rparr>"

definition failing_command :: command where
  "failing_command =
     \<lparr>name = Some ''boom'', aliases = NoAliases, execute = Some (\<lambda>_ _. Some (Error ''no network''))\<rparr>"

definition void_command :: command where
  "void_command =
     \<lparr>name = Some ''void'', aliases = NoAliases, execute = Some (\<lambda>_ _. Some Nullish)\<rparr>"

definition config_prefixes :: "string list" where
  "config_prefixes = [''/'', ''!'', ''.'']"

definition empty_state :: bot_state where
  "empty_state = \<lparr>processedMessagesCache = Map.empty, commands = [], trace = []\<rparr>"

definition yt_state :: bot_state where
  "yt_state = empty_state\<lparr>commands := fst (loadCommands ''/bot/commands''
                 (DirListing [(''yt.js'', Module (Some yt_command)),
                              (''boom.js'', Module (Some failing_command))]))\<rparr>"

definition void_state :: bot_state where
  "void_state = empty_state\<lparr>commands := fst (loadCommands ''/bot/commands''
                 (DirListing [(''void.js'', Module (Some void_command)),
                              (''yt.js'', Module (Some yt_command))]))\<rparr>"

text \<open>
  The events that \<open>handleIncomingMessage\<close> leaves by a plain \<open>return\<close> before the dedup
  check: no message, no payload, a status broadcast, or an identifier of the reserved shape.
\<close>

definition silently_rejected :: "wa_msg option \<Rightarrow> bool" where
  "silently_rejected msg =
     (case msg of
        None \<Rightarrow> True
      | Some m \<Rightarrow>
          message m = None
          \<or> (case key m of
                None \<Rightarrow> False
              | Some k \<Rightarrow>
                  remoteJid k = Some ''status@broadcast''
                  \<or> (case msgId k of
                        None \<Rightarrow> False
                      | Some i \<Rightarrow> startsWith i ''BAE5'' \<and> length i = 16)))"

text \<open>An event with a payload but without a key, or without an identifier in its key.\<close>

definition lacks_identifier :: "wa_msg option \<Rightarrow> bool" where
  "lacks_identifier msg =
     (case msg of
        None \<Rightarrow> False
      | Some m \<Rightarrow>
          message m \<noteq> None
          \<and> (case key m of
                None \<Rightarrow> True
              | Some k \<Rightarrow> remoteJid k \<noteq> Some ''status@broadcast'' \<and> msgId k = None))"

text \<open>
  The handler invocation that processing message \<open>m\<close> leads to, with the registry \<open>cmds\<close>:
  the body is there, it parses to a command, and the command is registered with an entry
  point.
\<close>

definition dispatched :: "string list \<Rightarrow> (string \<times> command) list \<Rightarrow> wa_msg \<Rightarrow> event list" where
  "dispatched prefixes cmds m =
     (let info = extractMessageInfo (Some m)
      in if body info = [] \<or> from_jid info = [] then []
         else
           (case parse_command prefixes (body info) of
              None \<Rightarrow> []
            | Some (cmd, args) \<Rightarrow>
                (case map_of cmds cmd of
                   None \<Rightarrow> []
                 | Some commandFile \<Rightarrow>
                     if execute commandFile = None then [] else [Execute commandFile m args])))"

text \<open>The invocations of a handler on a message with identifier \<open>i\<close>.\<close>

definition is_Execute_of :: "string \<Rightarrow> event \<Rightarrow> bool" where
  "is_Execute_of i e =
     (case e of
        Execute _ m _ \<Rightarrow> (case key m of None \<Rightarrow> False | Some k \<Rightarrow> msgId k = Some i)
      | _ \<Rightarrow> False)"

text \<open>
  What the process does between two deliveries of a message: it handles other messages,
  each at its own time and on the socket of that time, and it reloads the registry.
\<close>

datatype step = Deliver nat sock "wa_msg option" | Reload string commands_dir

fun run_steps :: "string list \<Rightarrow> step list \<Rightarrow> bot_state \<Rightarrow> bot_state" where
  "run_steps prefixes [] s = s"
| "run_steps prefixes (Deliver now sk msg # rest) s =
     run_steps prefixes rest (handleIncomingMessage prefixes now sk msg s)"
| "run_steps prefixes (Reload absCommandsDir d # rest) s =
     run_steps prefixes rest (reload_commands absCommandsDir d s)"

text \<open>Every delivery among the steps happens no later than \<open>e\<close>.\<close>

fun delivered_by :: "nat \<Rightarrow> step list \<Rightarrow> bool" where
  "delivered_by e [] = True"
| "delivered_by e (Deliver now sk msg # rest) = (now \<le> e \<and> delivered_by e rest)"
| "delivered_by e (Reload absCommandsDir d # rest) = delivered_by e rest"

definition duplicate_log :: event where
  "duplicate_log = Log ''info'' ''Received Duplicate Message, Skipping!''"

text \<open>
  The status code that \<open>handleConnectionUpdate\<close> works with (\<open>statusCode || 500\<close>), the
  closes it treats as an invalidated authentication, and the other closes.
\<close>

definition close_code :: "connection_update \<Rightarrow> nat" where
  "close_code u = (case statusCode u of None \<Rightarrow> 500 | Some c \<Rightarrow> if c = 0 then 500 else c)"

definition auth_close :: "nat \<Rightarrow> connection_update option \<Rightarrow> bool" where
  "auth_close loggedOut update =
     (case update of
        None \<Rightarrow> False
      | Some u \<Rightarrow>
          connection u = Close
          \<and> (close_code u = loggedOut \<or> close_code u = 401 \<or> close_code u = 403))"



text \<open>A process that has just started, and sample updates.\<close>

definition fresh_conn :: "session_dir \<Rightarrow> conn_state" where
  "fresh_conn folder =
     \<lparr>reconnectAttempts = 0, sessionFolder = folder, conn_trace = [], exitCode = None\<rparr>"

definition close_update :: "nat \<Rightarrow> connection_update option" where
  "close_update code = Some \<lparr>connection = Close, statusCode = Some code, reason = Some ''Connection Failure''\<rparr>"

definition open_update :: "connection_update option" where
  "open_update = Some \<lparr>connection = Open, statusCode = None, reason = None\<rparr>"

text \<open>
  The registry that the loader is meant to build, said directly.  A unit is valid when it
  has a name and an entry point; its keys are its name and the aliases of its alias array;
  the installed units are the valid default exports of the \<open>.js\<close> entries, in listing order.
\<close>

definition valid_unit :: "command \<Rightarrow> bool" where
  "valid_unit c = (name c \<noteq> None \<and> name c \<noteq> Some [] \<and> execute c \<noteq> None)"

definition unit_keys :: "command \<Rightarrow> string list" where
  "unit_keys c =
     (case name c of None \<Rightarrow> [] | Some n \<Rightarrow> [n])
     @ (case aliases c of AliasArray as \<Rightarrow> as | _ \<Rightarrow> [])"

definition installed_unit :: "string \<times> import_result \<Rightarrow> command list" where
  "installed_unit fr =
     (case fr of
        (file, Module (Some c)) \<Rightarrow> if endsWith file ''.js'' \<and> valid_unit c then [c] else []
      | _ \<Rightarrow> [])"

definition installed_units :: "(string \<times> import_result) list \<Rightarrow> command list" where
  "installed_units entries = concat (map installed_unit entries)"

text \<open>The last installed unit that has the key.\<close>

definition last_with_key :: "string \<Rightarrow> command list \<Rightarrow> command option" where
  "last_with_key k units = find (\<lambda>c. k \<in> set (unit_keys c)) (rev units)"

text \<open>
  What the loader logs for an entry it skips: an error line for an import that raised an
  object, a warning for a module without a valid default export.
\<close>

definition skip_log :: "string \<times> import_result \<Rightarrow> event list" where
  "skip_log fr =
     (case fr of
        (file, ImportThrows e) \<Rightarrow>
          if endsWith file ''.js'' then
            (case e of
               Error m \<Rightarrow> [Log ''danger'' (''Failed to load command file: '' @ file @ '': '' @ m)]
             | NonError \<Rightarrow>
                 [Log ''danger'' (''Failed to load command file: '' @ file @ '': undefined'')]
             | Nullish \<Rightarrow> [])
          else []
      | (file, Module None) \<Rightarrow>
          if endsWith file ''.js''
          then [Log ''warning'' (''Invalid command structure in '' @ file @ ''. Skipping...'')]
          else []
      | (file, Module (Some c)) \<Rightarrow>
          if endsWith file ''.js'' \<and> \<not> valid_unit c
          then [Log ''warning'' (''Invalid command structure in '' @ file @ ''. Skipping...'')]
          else [])"

text \<open>The import of a \<open>.js\<close> entry rejects with \<open>null\<close> or \<open>undefined\<close>.\<close>

definition raises_nullish :: "string \<times> import_result \<Rightarrow> bool" where
  "raises_nullish fr =
     (case fr of (file, ImportThrows Nullish) \<Rightarrow> endsWith file ''.js'' | _ \<Rightarrow> False)"

text \<open>A later unit that takes the key \<open>ytdl\<close>, and a commands directory with five entries.\<close>

definition ytdl_command :: command where
  "ytdl_command = \<lparr>name = Some ''ytdl'', aliases = NotAnArray, execute = Some (\<lambda>_ _. None)\<rparr>"

definition sample_entries :: "(string \<times> import_result) list" where
  "sample_entries =
     [(''yt.js'', Module (Some yt_command)),
      (''notes.txt'', Module (Some failing_command)),
      (''bad.js'', ImportThrows (Error ''Unexpected token'')),
      (''noname.js'', Module (Some (yt_command\<lparr>name := None\<rparr>)))]"

text \<open>A socket on which the acknowledgement raises.\<close>

definition failing_ack_sock :: sock where
  "failing_ack_sock = quiet_sock\<lparr>readMessages := (\<lambda>_. Some (Error ''Connection Closed''))\<rparr>"

text \<open>The first line that \<open>handleConnectionUpdate\<close> logs for a close.\<close>

definition closed_line :: "connection_update option \<Rightarrow> event" where
  "closed_line update =
     (case update of
        None \<Rightarrow> Log ''danger'' ''Connection closed. Status: 500. Reason: Unknown''
      | Some u \<Rightarrow>
          Log ''danger'' (''Connection closed. Status: '' @ show_nat (close_code u)
                          @ ''. Reason: '' @ or_default (reason u) ''Unknown''))"

definition terminated_line :: event where
  "terminated_line = Log ''error'' ''Session has been terminated. Please re-authenticate.''"

text \<open>
  The entries that the loop of \<open>loadCommands\<close> gets past: those listed before the first
  \<open>.js\<close> entry whose import rejects with a nullish value.
\<close>

definition loaded_entries :: "(string \<times> import_result) list \<Rightarrow> (string \<times> import_result) list" where
  "loaded_entries entries = takeWhile (\<lambda>fr. \<not> raises_nullish fr) entries"

definition load_aborted :: "(string \<times> import_result) list \<Rightarrow> event list" where
  "load_aborted entries =
     (if list_ex raises_nullish entries
      then [Log ''danger'' (''Error loading commands: '' @ type_error_message ''message'')]
      else [])"

section \<open>Auxiliary facts\<close>

lemmas string_defs = startsWith_def endsWith_def trim_def isWhiteSpace_def toLowerCase_def
  toLowerChar_def upper_case_def lower_case_def split_spaces_def

lemmas dispatch_defs = handleIncomingMessage_def handleIncomingMessage_result_def
  handleIncomingMessage_try_def cache_has_def object_prototype_members_def cache_set_def
  emit_def extractMessageInfo_def unknown_info_def extract_body_def text_of_def
  recognized_types_def or_default_def process_command_def parse_command_def find_prefix_def
  run_command_def handleError_def error_line_def type_error_message_def typeError_read_def
  message_or_unknown_def Let_def

lemma yt_state_eq:
  "yt_state = \<lparr>processedMessagesCache = Map.empty,
                commands = [(''yt'', yt_command), (''ytdl'', yt_command), (''boom'', failing_command)],
                trace = []\<rparr>"
  by (simp add: yt_state_def empty_state_def loadCommands_def load_file_def yt_command_def
        failing_command_def endsWith_def)

lemma try_accepted:
  assumes "passes_filters now s m k i"
  shows "handleIncomingMessage_try prefixes now sk (Some m) s =
     (let s1 = emit (CacheSet i) (s\<lparr>processedMessagesCache := cache_set (processedMessagesCache s) now i\<rparr>);
          s2 = emit (ReadMessages k) s1
      in case readMessages sk k of
           Some e \<Rightarrow> (Some e, s2)
         | None \<Rightarrow>
             (let info = extractMessageInfo (Some m)
              in if body info = [] \<or> from_jid info = [] then (None, s2)
                 else
                   (case process_command prefixes sk m info s2 of
                      (None, s3) \<Rightarrow> (None, s3)
                    | (Some t, s3) \<Rightarrow> (Some (Error t), s3))))"
  using assms unfolding passes_filters_def handleIncomingMessage_try_def
  by (auto simp: Let_def split: option.splits)

section \<open>Extraction and rejected events\<close>





text \<open>
  Claim C8, as stated, fails for the empty identifier: a command message whose identifier is
  the empty string is recorded, acknowledged and dispatched like any other.
\<close>

theorem empty_identifier_counterexample:
  "trace (handleIncomingMessage config_prefixes 5 quiet_sock
            (Some (text_msg ''62811@s.whatsapp.net'' [] ''/yt foo'')) yt_state) =
     [CacheSet [],
      ReadMessages \<lparr>remoteJid = Some ''62811@s.whatsapp.net'', msgId = Some []\<rparr>,
      Log ''success'' ''yt from Ann in Private Chat'',
      Execute yt_command (text_msg ''62811@s.whatsapp.net'' [] ''/yt foo'') [''foo'']]"
  by (simp add: dispatch_defs string_defs yt_state_eq text_msg_def quiet_sock_def
        config_prefixes_def yt_command_def)

text \<open>
  Claim C8, amended.  An event that is absent or has no payload, a status broadcast, and an
  event whose identifier starts with \<open>BAE5\<close> and has 16 characters leave the whole state
  as it was: no acknowledgement, no handler, no log entry.  An event that has a payload but
  no key or no identifier changes neither the dedup cache nor the acknowledgements nor the
  handler invocations.
\<close>

theorem rejected_events_untouched:
  "(silently_rejected msg \<longrightarrow> handleIncomingMessage prefixes now sk msg s = s)
   \<and> (lacks_identifier msg \<longrightarrow>
        processedMessagesCache (handleIncomingMessage prefixes now sk msg s) = processedMessagesCache s
        \<and> filter is_ReadMessages (trace (handleIncomingMessage prefixes now sk msg s))
            = filter is_ReadMessages (trace s)
        \<and> filter is_Execute (trace (handleIncomingMessage prefixes now sk msg s))
            = filter is_Execute (trace s))"
proof (intro conjI impI)
  assume "silently_rejected msg"
  then show "handleIncomingMessage prefixes now sk msg s = s"
    by (auto simp: silently_rejected_def handleIncomingMessage_def
          handleIncomingMessage_result_def handleIncomingMessage_try_def split: option.splits)
next
  assume l: "lacks_identifier msg"
  then obtain t where "handleIncomingMessage prefixes now sk msg s = emit (Log ''danger'' t) s"
    by (auto simp: lacks_identifier_def handleIncomingMessage_def
          handleIncomingMessage_result_def handleIncomingMessage_try_def handleError_def
          typeError_read_def error_line_def split: option.splits)
  then show "processedMessagesCache (handleIncomingMessage prefixes now sk msg s) = processedMessagesCache s"
    and "filter is_ReadMessages (trace (handleIncomingMessage prefixes now sk msg s))
            = filter is_ReadMessages (trace s)"
    and "filter is_Execute (trace (handleIncomingMessage prefixes now sk msg s))
            = filter is_Execute (trace s)"
    by (simp_all add: emit_def is_ReadMessages_def is_Execute_def)
qed

theorem rejected_events_untouched_witness:
  "silently_rejected (Some (text_msg ''status@broadcast'' ''3EB0A1'' ''/yt foo''))
   \<and> handleIncomingMessage config_prefixes 5 quiet_sock
        (Some (text_msg ''status@broadcast'' ''3EB0A1'' ''/yt foo'')) yt_state = yt_state
   \<and> silently_rejected (Some (text_msg ''62811@s.whatsapp.net'' ''BAE5000011112222'' ''/yt foo''))
   \<and> handleIncomingMessage config_prefixes 5 quiet_sock
        (Some (text_msg ''62811@s.whatsapp.net'' ''BAE5000011112222'' ''/yt foo'')) yt_state = yt_state
   \<and> lacks_identifier (Some ((text_msg ''62811@s.whatsapp.net'' ''3EB0A1'' ''/yt foo'')\<lparr>key := None\<rparr>))
   \<and> filter is_Execute (trace (handleIncomingMessage config_prefixes 5 quiet_sock
        (Some ((text_msg ''62811@s.whatsapp.net'' ''3EB0A1'' ''/yt foo'')\<lparr>key := None\<rparr>)) yt_state)) = []"
  using rejected_events_untouched [of "Some (text_msg ''status@broadcast'' ''3EB0A1'' ''/yt foo'')"
          config_prefixes 5 quiet_sock yt_state]
        rejected_events_untouched [of "Some (text_msg ''62811@s.whatsapp.net'' ''BAE5000011112222'' ''/yt foo'')"
          config_prefixes 5 quiet_sock yt_state]
        rejected_events_untouched [of "Some ((text_msg ''62811@s.whatsapp.net'' ''3EB0A1'' ''/yt foo'')\<lparr>key := None\<rparr>)"
          config_prefixes 5 quiet_sock yt_state]
  by (simp add: silently_rejected_def lacks_identifier_def text_msg_def startsWith_def
        yt_state_eq)

section \<open>Deduplication\<close>

lemma handleError_cases:
  "(\<exists>t. handleError e c = Inl t \<and> e = Nullish) \<or> (\<exists>u. handleError e c = Inr (Log ''danger'' u))"
  by (cases e) (simp_all add: handleError_def error_line_def)

lemma after_try:
  "handleIncomingMessage prefixes now sk msg s
     = snd (handleIncomingMessage_try prefixes now sk msg s)
   \<or> (\<exists>u. handleIncomingMessage prefixes now sk msg s
            = emit (Log ''danger'' u) (snd (handleIncomingMessage_try prefixes now sk msg s)))"
proof (cases "handleIncomingMessage_try prefixes now sk msg s")
  case (Pair o' s')
  show ?thesis
  proof (cases o')
    case None
    with Pair show ?thesis
      by (simp add: handleIncomingMessage_def handleIncomingMessage_result_def)
  next
    case (Some err)
    from handleError_cases [of err "''Error processing message''"] Pair Some show ?thesis
      by (auto simp: handleIncomingMessage_def handleIncomingMessage_result_def)
  qed
qed

lemma run_command_fields:
  "processedMessagesCache (snd (run_command sk m fr cmd c args s)) = processedMessagesCache s"
  "commands (snd (run_command sk m fr cmd c args s)) = commands s"
  by (auto simp: run_command_def emit_def Let_def split: option.splits sum.splits)

lemma run_command_trace:
  "\<exists>evs. trace (snd (run_command sk m fr cmd c args s)) = trace s @ evs
     \<and> filter is_Execute evs = (if execute c = None then [] else [Execute c m args])"
  by (auto simp: run_command_def emit_def Let_def is_Execute_def handleError_def error_line_def
        split: option.splits sum.splits thrown.splits)

lemma process_command_run:
  assumes "parse_command prefixes (body info) = Some (cmd, args)"
    "map_of (commands s) cmd = Some commandFile"
  shows "\<exists>ctx. process_command prefixes sk m info s
           = run_command sk m (from_jid info) cmd commandFile args
               (emit (Log ''success'' (cmd @ '' from '' @ info_pushName info @ '' in '' @ ctx))
                  (if isGroup info then emit (GroupMetadata (from_jid info)) s else s))"
  using assms
  by (auto simp: process_command_def Let_def split: sum.splits)

lemma process_command_fields:
  "processedMessagesCache (snd (process_command prefixes sk m info s)) = processedMessagesCache s"
  "commands (snd (process_command prefixes sk m info s)) = commands s"
  by (auto simp: process_command_def run_command_fields emit_def Let_def
        split: option.splits sum.splits)

lemma process_command_trace:
  "\<exists>evs. trace (snd (process_command prefixes sk m info s)) = trace s @ evs
     \<and> filter is_Execute evs =
         (case parse_command prefixes (body info) of
            None \<Rightarrow> []
          | Some (cmd, args) \<Rightarrow>
              (case map_of (commands s) cmd of
                 None \<Rightarrow> []
               | Some commandFile \<Rightarrow>
                   if execute commandFile = None then [] else [Execute commandFile m args]))"
proof (cases "parse_command prefixes (body info)")
  case None
  then show ?thesis by (simp add: process_command_def)
next
  case (Some ca)
  obtain cmd args where ca: "ca = (cmd, args)" by (cases ca)
  show ?thesis
  proof (cases "map_of (commands s) cmd")
    case None
    with Some ca show ?thesis by (simp add: process_command_def)
  next
    case c: (Some commandFile)
    from process_command_run [OF Some [unfolded ca] c, of sk m]
    obtain ctx where pc: "process_command prefixes sk m info s
           = run_command sk m (from_jid info) cmd commandFile args
               (emit (Log ''success'' (cmd @ '' from '' @ info_pushName info @ '' in '' @ ctx))
                  (if isGroup info then emit (GroupMetadata (from_jid info)) s else s))"
      by blast
    define s3 where "s3 = emit (Log ''success'' (cmd @ '' from '' @ info_pushName info @ '' in '' @ ctx))
                  (if isGroup info then emit (GroupMetadata (from_jid info)) s else s)"
    have "\<exists>evs0. trace s3 = trace s @ evs0 \<and> filter is_Execute evs0 = []"
      by (cases "isGroup info") (simp_all add: s3_def emit_def is_Execute_def)
    then obtain evs0 where e0: "trace s3 = trace s @ evs0" "filter is_Execute evs0 = []"
      by blast
    obtain evs1 where e1:
      "trace (snd (run_command sk m (from_jid info) cmd commandFile args s3)) = trace s3 @ evs1"
      "filter is_Execute evs1 = (if execute commandFile = None then [] else [Execute commandFile m args])"
      using run_command_trace by blast
    have pc': "process_command prefixes sk m info s
        = run_command sk m (from_jid info) cmd commandFile args s3"
      using pc by (simp only: s3_def)
    have "trace (snd (process_command prefixes sk m info s)) = trace s @ (evs0 @ evs1)"
      by (simp only: pc' e1 e0 append_assoc)
    moreover have "filter is_Execute (evs0 @ evs1)
        = (if execute commandFile = None then [] else [Execute commandFile m args])"
      by (simp add: e0 e1)
    ultimately show ?thesis using Some ca c by auto
  qed
qed

lemma try_state_accepted:
  assumes pf: "passes_filters now s m k i"
  shows "\<exists>evs. processedMessagesCache (snd (handleIncomingMessage_try prefixes now sk (Some m) s))
                 = cache_set (processedMessagesCache s) now i
           \<and> commands (snd (handleIncomingMessage_try prefixes now sk (Some m) s)) = commands s
           \<and> trace (snd (handleIncomingMessage_try prefixes now sk (Some m) s))
                 = trace s @ CacheSet i # ReadMessages k # evs
           \<and> filter is_Execute evs
                 = (if readMessages sk k = None then dispatched prefixes (commands s) m else [])"
proof -
  define s2 where "s2 = emit (ReadMessages k) (emit (CacheSet i)
      (s\<lparr>processedMessagesCache := cache_set (processedMessagesCache s) now i\<rparr>))"
  have s2: "processedMessagesCache s2 = cache_set (processedMessagesCache s) now i"
    "commands s2 = commands s" "trace s2 = trace s @ [CacheSet i, ReadMessages k]"
    by (simp_all add: s2_def emit_def)
  show ?thesis
  proof (cases "readMessages sk k")
    case (Some e)
    then have "snd (handleIncomingMessage_try prefixes now sk (Some m) s) = s2"
      by (simp add: try_accepted [OF pf] s2_def Let_def)
    then show ?thesis using Some
      by (simp add: s2)
  next
    case None
    show ?thesis
    proof (cases "body (extractMessageInfo (Some m)) = [] \<or> from_jid (extractMessageInfo (Some m)) = []")
      case True
      then have "snd (handleIncomingMessage_try prefixes now sk (Some m) s) = s2"
        using None by (auto simp add: try_accepted [OF pf] s2_def Let_def)
      then show ?thesis using None True
        by (auto simp add: s2 dispatched_def)
    next
      case False
      then have h: "snd (handleIncomingMessage_try prefixes now sk (Some m) s)
          = snd (process_command prefixes sk m (extractMessageInfo (Some m)) s2)"
        using None
        by (auto simp add: try_accepted [OF pf] s2_def Let_def split: prod.splits option.splits)
      obtain evs where evs:
        "trace (snd (process_command prefixes sk m (extractMessageInfo (Some m)) s2)) = trace s2 @ evs"
        "filter is_Execute evs =
         (case parse_command prefixes (body (extractMessageInfo (Some m))) of
            None \<Rightarrow> []
          | Some (cmd, args) \<Rightarrow>
              (case map_of (commands s2) cmd of
                 None \<Rightarrow> []
               | Some commandFile \<Rightarrow>
                   if execute commandFile = None then [] else [Execute commandFile m args]))"
        using process_command_trace by blast
      have "filter is_Execute evs = dispatched prefixes (commands s) m"
        using False unfolding evs(2) dispatched_def s2(2) by (simp add: Let_def)
      then show ?thesis using None
        by (simp add: h process_command_fields s2 evs(1))
    qed
  qed
qed

lemma handle_accepted:
  assumes pf: "passes_filters now s m k i"
  shows "\<exists>evs. processedMessagesCache (handleIncomingMessage prefixes now sk (Some m) s)
                 = cache_set (processedMessagesCache s) now i
           \<and> commands (handleIncomingMessage prefixes now sk (Some m) s) = commands s
           \<and> trace (handleIncomingMessage prefixes now sk (Some m) s)
                 = trace s @ CacheSet i # ReadMessages k # evs
           \<and> filter is_Execute evs
                 = (if readMessages sk k = None then dispatched prefixes (commands s) m else [])"
proof -
  let ?t = "snd (handleIncomingMessage_try prefixes now sk (Some m) s)"
  obtain evs where evs:
    "processedMessagesCache ?t = cache_set (processedMessagesCache s) now i"
    "commands ?t = commands s"
    "trace ?t = trace s @ CacheSet i # ReadMessages k # evs"
    "filter is_Execute evs
       = (if readMessages sk k = None then dispatched prefixes (commands s) m else [])"
    using try_state_accepted [OF pf, of prefixes sk] by blast
  define logs where "logs = drop (length (trace ?t))
      (trace (handleIncomingMessage prefixes now sk (Some m) s))"
  from after_try [of prefixes now sk "Some m" s]
  have logs: "trace (handleIncomingMessage prefixes now sk (Some m) s) = trace ?t @ logs"
    "filter is_Execute logs = []"
    "processedMessagesCache (handleIncomingMessage prefixes now sk (Some m) s)
       = processedMessagesCache ?t"
    "commands (handleIncomingMessage prefixes now sk (Some m) s) = commands ?t"
    by (auto simp: logs_def emit_def is_Execute_def)
  have "filter is_Execute (evs @ logs)
       = (if readMessages sk k = None then dispatched prefixes (commands s) m else [])"
    by (simp add: evs(4) logs(2))
  moreover have "trace (handleIncomingMessage prefixes now sk (Some m) s)
      = trace s @ CacheSet i # ReadMessages k # (evs @ logs)"
    by (simp add: logs(1) evs(3))
  moreover have "processedMessagesCache (handleIncomingMessage prefixes now sk (Some m) s)
      = cache_set (processedMessagesCache s) now i"
    "commands (handleIncomingMessage prefixes now sk (Some m) s) = commands s"
    by (simp_all add: logs(3,4) evs(1,2))
  ultimately show ?thesis
    by blast
qed

lemma handle_not_accepted:
  assumes "\<forall>m k i. msg = Some m \<longrightarrow> \<not> passes_filters now s m k i"
  shows "handleIncomingMessage prefixes now sk msg s = s
         \<or> (\<exists>t u. handleIncomingMessage prefixes now sk msg s = emit (Log t u) s)"
  using assms
  by (auto simp: handleIncomingMessage_def handleIncomingMessage_result_def
        handleIncomingMessage_try_def passes_filters_def handleError_def typeError_read_def
        error_line_def split: option.splits)

lemma is_Execute_of_filter:
  "filter (is_Execute_of i) evs = filter (is_Execute_of i) (filter is_Execute evs)"
proof -
  have "is_Execute_of i e \<longrightarrow> is_Execute e" for e
    by (cases e) (simp_all add: is_Execute_of_def is_Execute_def)
  then show ?thesis
    by (induction evs) auto
qed

lemma dispatched_other:
  assumes "key m = Some k" "msgId k \<noteq> Some i"
  shows "filter (is_Execute_of i) (dispatched prefixes cmds m) = []"
  using assms
  by (auto simp: dispatched_def is_Execute_of_def Let_def split: option.splits)

lemma handle_keeps_live:
  assumes live: "processedMessagesCache s i = Some e" "now \<le> e"
  shows "processedMessagesCache (handleIncomingMessage prefixes now sk msg s) i = Some e
         \<and> filter (is_Execute_of i) (trace (handleIncomingMessage prefixes now sk msg s))
             = filter (is_Execute_of i) (trace s)"
proof (cases "\<exists>m k j. msg = Some m \<and> passes_filters now s m k j")
  case True
  then obtain m k j where msg: "msg = Some m" and pf: "passes_filters now s m k j"
    by blast
  from pf live have ji: "j \<noteq> i"
    by (auto simp: passes_filters_def cache_has_def)
  from pf have km: "key m = Some k" "msgId k = Some j"
    by (simp_all add: passes_filters_def)
  obtain evs where evs:
    "processedMessagesCache (handleIncomingMessage prefixes now sk (Some m) s)
       = cache_set (processedMessagesCache s) now j"
    "trace (handleIncomingMessage prefixes now sk (Some m) s)
       = trace s @ CacheSet j # ReadMessages k # evs"
    "filter is_Execute evs
       = (if readMessages sk k = None then dispatched prefixes (commands s) m else [])"
    using handle_accepted [OF pf] by blast
  have "filter (is_Execute_of i) evs = []"
    using dispatched_other [of m k i] km ji
    by (subst is_Execute_of_filter) (simp add: evs(3))
  then show ?thesis
    using ji live by (simp add: msg evs(1,2) cache_set_def is_Execute_of_def)
next
  case False
  then have "\<forall>m k i. msg = Some m \<longrightarrow> \<not> passes_filters now s m k i"
    by blast
  from handle_not_accepted [OF this, of prefixes sk]
  show ?thesis using live
    by (auto simp: emit_def is_Execute_of_def)
qed

lemma load_file_logs:
  assumes "\<forall>e \<in> set (snd acc). \<not> is_Execute e"
  shows "\<forall>e \<in> set (snd (snd (load_file fr acc))). \<not> is_Execute e"
  using assms
  by (cases fr; cases acc)
     (auto simp: load_file_def handleError_def error_line_def invalid_structure_def
        is_Execute_def Let_def
        split: import_result.splits option.splits aliases_value.splits thrown.splits)

lemma load_files_logs:
  assumes "\<forall>e \<in> set (snd acc). \<not> is_Execute e"
  shows "\<forall>e \<in> set (snd (snd (load_files files acc))). \<not> is_Execute e"
  using assms
proof (induction files arbitrary: acc)
  case Nil
  then show ?case by simp
next
  case (Cons fr files)
  have one: "\<forall>e \<in> set (snd (snd (load_file fr acc))). \<not> is_Execute e"
    by (rule load_file_logs [OF Cons.prems])
  obtain o' acc' where l: "load_file fr acc = (o', acc')"
    by (cases "load_file fr acc")
  with one have acc': "\<forall>e \<in> set (snd acc'). \<not> is_Execute e"
    by simp
  show ?case
  proof (cases o')
    case None
    with l Cons.IH [OF acc'] show ?thesis by simp
  next
    case (Some t)
    with l acc' show ?thesis by simp
  qed
qed

lemma loadCommands_logs: "\<forall>e \<in> set (snd (loadCommands dir d)). \<not> is_Execute e"
proof (cases d)
  case (DirListing entries)
  let ?files = "filter (\<lambda>(file, _). endsWith file ''.js'') entries"
  let ?start = "([] :: (string \<times> command) list,
      [Log ''info'' (''Found '' @ show_nat (length ?files) @ '' command files'')])"
  have "\<forall>e \<in> set (snd ?start). \<not> is_Execute e"
    by (simp add: is_Execute_def)
  from load_files_logs [OF this, of ?files]
  show ?thesis
    using DirListing
    by (cases "load_files ?files ?start")
       (auto simp: loadCommands_def Let_def error_line_def is_Execute_def split: option.splits)
qed (auto simp: loadCommands_def error_line_def is_Execute_def Let_def split: option.splits)

lemma reload_keeps_live:
  "processedMessagesCache (reload_commands dir d s) = processedMessagesCache s
   \<and> filter is_Execute (trace (reload_commands dir d s)) = filter is_Execute (trace s)"
proof -
  obtain cmds evs where l: "loadCommands dir d = (cmds, evs)"
    by (cases "loadCommands dir d")
  with loadCommands_logs [of dir d] have "filter is_Execute evs = []"
    by (simp add: filter_empty_conv)
  then show ?thesis
    by (simp add: reload_commands_def l emit_def is_Execute_def)
qed

lemma run_steps_keep_live:
  assumes "processedMessagesCache s i = Some e" "delivered_by e steps"
  shows "processedMessagesCache (run_steps prefixes steps s) i = Some e
         \<and> filter (is_Execute_of i) (trace (run_steps prefixes steps s))
             = filter (is_Execute_of i) (trace s)"
  using assms
proof (induction steps arbitrary: s)
  case Nil
  then show ?case by simp
next
  case (Cons st steps)
  show ?case
  proof (cases st)
    case (Deliver now sk msg)
    with Cons.prems have "now \<le> e" and rest: "delivered_by e steps" by simp_all
    from handle_keeps_live [OF Cons.prems(1) \<open>now \<le> e\<close>, of prefixes sk msg]
    have step: "processedMessagesCache (handleIncomingMessage prefixes now sk msg s) i = Some e"
      "filter (is_Execute_of i) (trace (handleIncomingMessage prefixes now sk msg s))
         = filter (is_Execute_of i) (trace s)"
      by simp_all
    from Cons.IH [OF step(1) rest] show ?thesis
      by (simp add: Deliver step(2))
  next
    case (Reload dir d)
    with Cons.prems have rest: "delivered_by e steps" by simp
    have step: "processedMessagesCache (reload_commands dir d s) i = Some e"
      "filter (is_Execute_of i) (trace (reload_commands dir d s))
         = filter (is_Execute_of i) (trace s)"
      using reload_keeps_live [of dir d s] Cons.prems(1)
        is_Execute_of_filter [of i "trace (reload_commands dir d s)"]
        is_Execute_of_filter [of i "trace s"]
      by simp_all
    from Cons.IH [OF step(1) rest] show ?thesis
      by (simp add: Reload step(2))
  qed
qed

lemma handle_duplicate:
  assumes "key m = Some k" "msgId k = Some i" "cache_has (processedMessagesCache s) now i"
  shows "handleIncomingMessage prefixes now sk (Some m) s = s
         \<or> handleIncomingMessage prefixes now sk (Some m) s = emit duplicate_log s"
  using assms
  by (auto simp: handleIncomingMessage_def handleIncomingMessage_result_def
        handleIncomingMessage_try_def duplicate_log_def split: option.splits)

lemma handle_duplicate_accepted:
  assumes "passes_filters t s m k i" "cache_has (processedMessagesCache s') now i"
  shows "handleIncomingMessage prefixes now sk (Some m) s' = emit duplicate_log s'"
  using assms
  by (auto simp: handleIncomingMessage_def handleIncomingMessage_result_def
        handleIncomingMessage_try_def duplicate_log_def passes_filters_def split: option.splits)

lemma dispatched_at_most_one: "length (dispatched prefixes cmds m) \<le> 1"
  by (simp add: dispatched_def Let_def split: option.splits)

text \<open>
  Claim C1, as stated, fails when the acknowledgement of the first delivery raises: the
  identifier is in the cache by then, the outer \<open>catch\<close> logs the fault, and the second
  delivery is dropped as a duplicate, so the handler of the command is not run at all.
\<close>

theorem unacknowledged_delivery_counterexample:
  "trace (handleIncomingMessage config_prefixes 2000 quiet_sock
            (Some (text_msg ''62811@s.whatsapp.net'' ''3EB0A1'' ''/yt foo''))
            (handleIncomingMessage config_prefixes 1000 failing_ack_sock
               (Some (text_msg ''62811@s.whatsapp.net'' ''3EB0A1'' ''/yt foo'')) yt_state))
     = [CacheSet ''3EB0A1'',
        ReadMessages \<lparr>remoteJid = Some ''62811@s.whatsapp.net'', msgId = Some ''3EB0A1''\<rparr>,
        Log ''danger'' ''Error processing message: Connection Closed'',
        Log ''info'' ''Received Duplicate Message, Skipping!'']"
  by (simp add: dispatch_defs string_defs yt_state_eq text_msg_def quiet_sock_def
        failing_ack_sock_def stdTTL_ms_def)

text \<open>
  Claim C1, amended.  A message whose identifier the dedup cache reports as present leaves
  the state as it was, but for the informational log line: it is not marked read, its body is
  not parsed and no handler runs.  When a message that gets past the filters and the dedup
  check at time \<open>t1\<close> is delivered again at a time \<open>t2\<close> within the TTL, with any other
  deliveries and reloads in between, the second delivery does nothing but log the duplicate,
  and over both deliveries the handler runs on this identifier at most once: once when the
  first delivery acknowledged the message and dispatched a registered command, and not at all
  when it did not.
\<close>

theorem duplicate_delivery_suppressed:
  "(key m = Some k \<and> msgId k = Some i \<and> cache_has (processedMessagesCache s) now i \<longrightarrow>
      handleIncomingMessage prefixes now sk (Some m) s = s
      \<or> handleIncomingMessage prefixes now sk (Some m) s = emit duplicate_log s)
   \<and> (passes_filters t1 s m k i \<and> delivered_by (t1 + stdTTL_ms) steps \<and> t2 \<le> t1 + stdTTL_ms \<longrightarrow>
        (let s1 = handleIncomingMessage prefixes t1 sk1 (Some m) s;
             s2 = run_steps prefixes steps s1;
             s3 = handleIncomingMessage prefixes t2 sk2 (Some m) s2
         in s3 = emit duplicate_log s2
            \<and> filter (is_Execute_of i) (trace s3)
                = filter (is_Execute_of i) (trace s)
                  @ (if readMessages sk1 k = None then dispatched prefixes (commands s) m else [])
            \<and> length (dispatched prefixes (commands s) m) \<le> 1))"
proof (intro conjI impI)
  assume "key m = Some k \<and> msgId k = Some i \<and> cache_has (processedMessagesCache s) now i"
  then show "handleIncomingMessage prefixes now sk (Some m) s = s
      \<or> handleIncomingMessage prefixes now sk (Some m) s = emit duplicate_log s"
    using handle_duplicate by blast
next
  assume a: "passes_filters t1 s m k i \<and> delivered_by (t1 + stdTTL_ms) steps \<and> t2 \<le> t1 + stdTTL_ms"
  then have pf: "passes_filters t1 s m k i" and ds: "delivered_by (t1 + stdTTL_ms) steps"
    and t2: "t2 \<le> t1 + stdTTL_ms"
    by simp_all
  define s1 where "s1 = handleIncomingMessage prefixes t1 sk1 (Some m) s"
  define s2 where "s2 = run_steps prefixes steps s1"
  define s3 where "s3 = handleIncomingMessage prefixes t2 sk2 (Some m) s2"
  from pf have km: "key m = Some k" "msgId k = Some i"
    by (simp_all add: passes_filters_def)
  obtain evs where evs:
    "processedMessagesCache s1 = cache_set (processedMessagesCache s) t1 i"
    "trace s1 = trace s @ CacheSet i # ReadMessages k # evs"
    "filter is_Execute evs
       = (if readMessages sk1 k = None then dispatched prefixes (commands s) m else [])"
    using handle_accepted [OF pf, of prefixes sk1] unfolding s1_def by blast
  have live1: "processedMessagesCache s1 i = Some (t1 + stdTTL_ms)"
    by (simp add: evs(1) cache_set_def)
  have ex1: "filter (is_Execute_of i) (trace s1)
      = filter (is_Execute_of i) (trace s)
        @ (if readMessages sk1 k = None then dispatched prefixes (commands s) m else [])"
  proof -
    have "filter (is_Execute_of i) evs = filter (is_Execute_of i) (filter is_Execute evs)"
      by (rule is_Execute_of_filter)
    also have "\<dots> = (if readMessages sk1 k = None then dispatched prefixes (commands s) m else [])"
      using km
      by (auto simp: evs(3) dispatched_def is_Execute_of_def Let_def split: option.splits)
    finally show ?thesis
      by (simp add: evs(2) is_Execute_of_def)
  qed
  from run_steps_keep_live [OF live1 ds, of prefixes]
  have live2: "processedMessagesCache s2 i = Some (t1 + stdTTL_ms)"
    and ex2: "filter (is_Execute_of i) (trace s2) = filter (is_Execute_of i) (trace s1)"
    by (simp_all add: s2_def)
  from live2 t2 have "cache_has (processedMessagesCache s2) t2 i"
    by (simp add: cache_has_def)
  from handle_duplicate_accepted [OF pf this]
  have s3: "s3 = emit duplicate_log s2"
    by (simp add: s3_def)
  have "filter (is_Execute_of i) (trace s3) = filter (is_Execute_of i) (trace s2)"
    by (simp add: s3 emit_def duplicate_log_def is_Execute_of_def)
  with s3 ex1 ex2 dispatched_at_most_one [of prefixes "commands s" m]
  show "let s1 = handleIncomingMessage prefixes t1 sk1 (Some m) s;
             s2 = run_steps prefixes steps s1;
             s3 = handleIncomingMessage prefixes t2 sk2 (Some m) s2
         in s3 = emit duplicate_log s2
            \<and> filter (is_Execute_of i) (trace s3)
                = filter (is_Execute_of i) (trace s)
                  @ (if readMessages sk1 k = None then dispatched prefixes (commands s) m else [])
            \<and> length (dispatched prefixes (commands s) m) \<le> 1"
    unfolding Let_def s1_def [symmetric] s2_def [symmetric] s3_def [symmetric]
    by simp
qed

theorem duplicate_delivery_suppressed_witness:
  "cache_has (processedMessagesCache
       (yt_state\<lparr>processedMessagesCache := [''3EB0A1'' \<mapsto> 3601000]\<rparr>)) 2000 ''3EB0A1''
   \<and> passes_filters 1000 yt_state (text_msg ''62811@s.whatsapp.net'' ''3EB0A1'' ''/yt foo'')
        \<lparr>remoteJid = Some ''62811@s.whatsapp.net'', msgId = Some ''3EB0A1''\<rparr> ''3EB0A1''
   \<and> delivered_by (1000 + stdTTL_ms)
        [Deliver 2000 quiet_sock (Some (text_msg ''62811@s.whatsapp.net'' ''3EB0B2'' ''!boom'')),
         Reload ''/bot/commands'' (DirListing [])]
   \<and> (3601000 :: nat) \<le> 1000 + stdTTL_ms
   \<and> filter (is_Execute_of ''3EB0A1'')
        (trace (handleIncomingMessage config_prefixes 3601000 broken_sock
                  (Some (text_msg ''62811@s.whatsapp.net'' ''3EB0A1'' ''/yt foo''))
                  (run_steps config_prefixes
                     [Deliver 2000 quiet_sock (Some (text_msg ''62811@s.whatsapp.net'' ''3EB0B2'' ''!boom'')),
                      Reload ''/bot/commands'' (DirListing [])]
                     (handleIncomingMessage config_prefixes 1000 quiet_sock
                        (Some (text_msg ''62811@s.whatsapp.net'' ''3EB0A1'' ''/yt foo'')) yt_state))))
       = [Execute yt_command (text_msg ''62811@s.whatsapp.net'' ''3EB0A1'' ''/yt foo'') [''foo'']]"
proof -
  let ?m = "text_msg ''62811@s.whatsapp.net'' ''3EB0A1'' ''/yt foo''"
  let ?k = "\<lparr>remoteJid = Some ''62811@s.whatsapp.net'', msgId = Some ''3EB0A1''\<rparr>"
  let ?steps = "[Deliver 2000 quiet_sock (Some (text_msg ''62811@s.whatsapp.net'' ''3EB0B2'' ''!boom'')),
                 Reload ''/bot/commands'' (DirListing [])]"
  have c: "cache_has (processedMessagesCache
       (yt_state\<lparr>processedMessagesCache := [''3EB0A1'' \<mapsto> 3601000]\<rparr>)) 2000 ''3EB0A1''"
    by (simp add: cache_has_def)
  have pf: "passes_filters 1000 yt_state ?m ?k ''3EB0A1''"
    by (simp add: passes_filters_def cache_has_def object_prototype_members_def text_msg_def
          yt_state_eq startsWith_def)
  have ds: "delivered_by (1000 + stdTTL_ms) ?steps"
    by (simp add: stdTTL_ms_def)
  have t: "(3601000 :: nat) \<le> 1000 + stdTTL_ms"
    by (simp add: stdTTL_ms_def)
  have d: "dispatched config_prefixes (commands yt_state) ?m = [Execute yt_command ?m [''foo'']]"
    by (simp add: dispatched_def text_msg_def yt_state_eq extractMessageInfo_def unknown_info_def
          extract_body_def text_of_def
          recognized_types_def or_default_def parse_command_def find_prefix_def
          config_prefixes_def string_defs yt_command_def Let_def)
  have "filter (is_Execute_of ''3EB0A1'')
          (trace (handleIncomingMessage config_prefixes 3601000 broken_sock (Some ?m)
                    (run_steps config_prefixes ?steps
                       (handleIncomingMessage config_prefixes 1000 quiet_sock (Some ?m) yt_state))))
        = filter (is_Execute_of ''3EB0A1'') (trace yt_state)
          @ (if readMessages quiet_sock ?k = None
             then dispatched config_prefixes (commands yt_state) ?m else [])"
    using duplicate_delivery_suppressed
      [where m = ?m and k = ?k and i = "''3EB0A1''" and s = yt_state and ?t1.0 = 1000
         and ?t2.0 = 3601000 and steps = ?steps and ?sk1.0 = quiet_sock
         and ?sk2.0 = broken_sock and prefixes = config_prefixes]
      pf ds t
    unfolding Let_def by blast
  moreover have "trace yt_state = []"
    by (simp add: yt_state_eq)
  ultimately show ?thesis
    using c pf ds t by (simp add: d quiet_sock_def)
qed

text \<open>
  Claim C9.  For a message that gets past the filters, the dedup check included, the first
  thing the dispatcher does is to put the identifier into the dedup cache; the
  acknowledgement and everything else come after it.  Whatever happens then (the acknowledgement raises, the body is no command, the
  command is unknown, the handler raises), the entry is there with the full TTL, and a
  second delivery of the message within the TTL does nothing but log the duplicate.
\<close>

theorem dedup_entry_consumed:
  "passes_filters now s m k i \<and> t2 \<le> now + stdTTL_ms \<longrightarrow>
     (\<exists>evs. trace (handleIncomingMessage prefixes now sk (Some m) s)
              = trace s @ CacheSet i # ReadMessages k # evs)
     \<and> processedMessagesCache (handleIncomingMessage prefixes now sk (Some m) s) i
         = Some (now + stdTTL_ms)
     \<and> handleIncomingMessage prefixes' t2 sk' (Some m)
           (handleIncomingMessage prefixes now sk (Some m) s)
         = emit duplicate_log (handleIncomingMessage prefixes now sk (Some m) s)"
proof
  assume a: "passes_filters now s m k i \<and> t2 \<le> now + stdTTL_ms"
  then have pf: "passes_filters now s m k i" and t2: "t2 \<le> now + stdTTL_ms"
    by simp_all
  define s1 where "s1 = handleIncomingMessage prefixes now sk (Some m) s"
  obtain evs where evs:
    "processedMessagesCache s1 = cache_set (processedMessagesCache s) now i"
    "trace s1 = trace s @ CacheSet i # ReadMessages k # evs"
    using handle_accepted [OF pf, of prefixes sk] unfolding s1_def by blast
  have live: "processedMessagesCache s1 i = Some (now + stdTTL_ms)"
    by (simp add: evs(1) cache_set_def)
  with t2 have "cache_has (processedMessagesCache s1) t2 i"
    by (simp add: cache_has_def)
  from handle_duplicate_accepted [OF pf this]
  have "handleIncomingMessage prefixes' t2 sk' (Some m) s1 = emit duplicate_log s1" .
  with live evs(2) show "(\<exists>evs. trace (handleIncomingMessage prefixes now sk (Some m) s)
              = trace s @ CacheSet i # ReadMessages k # evs)
     \<and> processedMessagesCache (handleIncomingMessage prefixes now sk (Some m) s) i
         = Some (now + stdTTL_ms)
     \<and> handleIncomingMessage prefixes' t2 sk' (Some m)
           (handleIncomingMessage prefixes now sk (Some m) s)
         = emit duplicate_log (handleIncomingMessage prefixes now sk (Some m) s)"
    unfolding s1_def by blast
qed

theorem dedup_entry_consumed_witness:
  "passes_filters 1000 yt_state (text_msg ''62811@s.whatsapp.net'' ''3EB0C3'' ''/boom now'')
        \<lparr>remoteJid = Some ''62811@s.whatsapp.net'', msgId = Some ''3EB0C3''\<rparr> ''3EB0C3''
   \<and> (2000 :: nat) \<le> 1000 + stdTTL_ms
   \<and> processedMessagesCache (handleIncomingMessage config_prefixes 1000 broken_sock
         (Some (text_msg ''62811@s.whatsapp.net'' ''3EB0C3'' ''/boom now'')) yt_state) ''3EB0C3''
       = Some 3601000
   \<and> handleIncomingMessage config_prefixes 2000 quiet_sock
         (Some (text_msg ''62811@s.whatsapp.net'' ''3EB0C3'' ''/boom now''))
         (handleIncomingMessage config_prefixes 1000 broken_sock
            (Some (text_msg ''62811@s.whatsapp.net'' ''3EB0C3'' ''/boom now'')) yt_state)
       = emit duplicate_log (handleIncomingMessage config_prefixes 1000 broken_sock
            (Some (text_msg ''62811@s.whatsapp.net'' ''3EB0C3'' ''/boom now'')) yt_state)"
proof -
  let ?m = "text_msg ''62811@s.whatsapp.net'' ''3EB0C3'' ''/boom now''"
  let ?k = "\<lparr>remoteJid = Some ''62811@s.whatsapp.net'', msgId = Some ''3EB0C3''\<rparr>"
  have pf: "passes_filters 1000 yt_state ?m ?k ''3EB0C3''"
    by (simp add: passes_filters_def cache_has_def object_prototype_members_def text_msg_def
          yt_state_eq startsWith_def)
  have t: "(2000 :: nat) \<le> 1000 + stdTTL_ms"
    by (simp add: stdTTL_ms_def)
  from dedup_entry_consumed
      [where m = ?m and k = ?k and i = "''3EB0C3''" and s = yt_state and now = 1000
         and ?t2.0 = 2000 and sk = broken_sock and sk' = quiet_sock
         and prefixes = config_prefixes and prefixes' = config_prefixes]
    pf t
  show ?thesis
    by (simp add: stdTTL_ms_def)
qed

section \<open>Handler faults and command resolution\<close>

lemma void_state_eq:
  "void_state = \<lparr>processedMessagesCache = Map.empty,
                  commands = [(''void'', void_command), (''yt'', yt_command), (''ytdl'', yt_command)],
                  trace = []\<rparr>"
  by (simp add: void_state_def empty_state_def loadCommands_def load_file_def void_command_def
        yt_command_def endsWith_def)

lemma run_command_raises:
  assumes "execute c = Some f" "f m args = Some err" "err \<noteq> Nullish"
    "sendMessage sk fr (''Error executing command: '' @ message_or_unknown err) \<noteq> Some Nullish"
  shows "\<exists>line tail. run_command sk m fr cmd c args s =
           (None, s\<lparr>trace := trace s @ [Execute c m args, Log ''danger'' line,
                      SendMessage fr (''Error executing command: '' @ message_or_unknown err)]
                    @ tail\<rparr>)
         \<and> take (length (''Error executing command '' @ cmd)) line = ''Error executing command '' @ cmd
         \<and> filter is_SendMessage tail = []
         \<and> (sendMessage sk fr (''Error executing command: '' @ message_or_unknown err) = None
              \<longrightarrow> tail = [])"
proof -
  let ?text = "''Error executing command: '' @ message_or_unknown err"
  from assms(3) obtain u where h1:
    "handleError err (''Error executing command '' @ cmd)
       = Inr (Log ''danger'' ((''Error executing command '' @ cmd) @ u))"
    by (cases err) (auto simp: handleError_def error_line_def)
  show ?thesis
  proof (cases "sendMessage sk fr ?text")
    case None
    with assms(1,2) h1 show ?thesis
      by (intro exI [of _ "(''Error executing command '' @ cmd) @ u"] exI [of _ "[]"])
         (simp add: run_command_def emit_def Let_def)
  next
    case (Some sendErr)
    with assms(4) have "sendErr \<noteq> Nullish" by auto
    then obtain w where h2:
      "handleError sendErr ''Failed to send error message'' = Inr (Log ''danger'' w)"
      by (cases sendErr) (auto simp: handleError_def error_line_def)
    with Some assms(1,2) h1 show ?thesis
      by (intro exI [of _ "(''Error executing command '' @ cmd) @ u"]
            exI [of _ "[Log ''danger'' w]"])
         (simp add: run_command_def emit_def Let_def is_SendMessage_def)
  qed
qed

text \<open>
  When the handler of a dispatched command raises an object (an error or anything else that
  is not \<open>null\<close> or \<open>undefined\<close>) and the socket does not reject the notification with
  \<open>null\<close> or \<open>undefined\<close> either, the call returns, its trace ends with the invocation, an
  error line that starts with the name of the command, and one notification to the chat of
  the message, followed at most by the error line for a notification that could not be
  sent; the call sends exactly one notification.
\<close>

lemma handler_fault_notified:
  assumes "passes_filters now s m k i" "readMessages sk k = None"
    "body (extractMessageInfo (Some m)) \<noteq> []" "from_jid (extractMessageInfo (Some m)) \<noteq> []"
    "parse_command prefixes (body (extractMessageInfo (Some m))) = Some (cmd, args)"
    "map_of (commands s) cmd = Some c" "execute c = Some f" "f m args = Some err"
    "err \<noteq> Nullish"
    "sendMessage sk (from_jid (extractMessageInfo (Some m)))
       (''Error executing command: '' @ message_or_unknown err) \<noteq> Some Nullish"
  shows "\<exists>pre line tail.
           handleIncomingMessage_result prefixes now sk (Some m) s =
             (None, s\<lparr>processedMessagesCache := cache_set (processedMessagesCache s) now i,
                      trace := trace s @ pre
                        @ [Execute c m args, Log ''danger'' line,
                           SendMessage (from_jid (extractMessageInfo (Some m)))
                             (''Error executing command: '' @ message_or_unknown err)]
                        @ tail\<rparr>)
           \<and> take (length (''Error executing command '' @ cmd)) line
               = ''Error executing command '' @ cmd
           \<and> filter is_SendMessage pre = [] \<and> filter is_Execute pre = []
           \<and> filter is_SendMessage tail = []"
proof -
  let ?info = "extractMessageInfo (Some m)"
  define s2 where "s2 = emit (ReadMessages k) (emit (CacheSet i)
      (s\<lparr>processedMessagesCache := cache_set (processedMessagesCache s) now i\<rparr>))"
  have "commands s2 = commands s"
    by (simp add: s2_def emit_def)
  with assms(6) have reg2: "map_of (commands s2) cmd = Some c"
    by simp
  from process_command_run [OF assms(5) reg2, of sk m]
  obtain ctx where p: "process_command prefixes sk m ?info s2
      = run_command sk m (from_jid ?info) cmd c args
          (emit (Log ''success'' (cmd @ '' from '' @ info_pushName ?info @ '' in '' @ ctx))
             (if isGroup ?info then emit (GroupMetadata (from_jid ?info)) s2 else s2))"
    by blast
  define s4 where "s4 = emit (Log ''success'' (cmd @ '' from '' @ info_pushName ?info @ '' in '' @ ctx))
             (if isGroup ?info then emit (GroupMetadata (from_jid ?info)) s2 else s2)"
  define pre where "pre = [CacheSet i, ReadMessages k]
      @ (if isGroup ?info then [GroupMetadata (from_jid ?info)] else [])
      @ [Log ''success'' (cmd @ '' from '' @ info_pushName ?info @ '' in '' @ ctx)]"
  have s4: "s4 = s\<lparr>processedMessagesCache := cache_set (processedMessagesCache s) now i,
                   trace := trace s @ pre\<rparr>"
    by (simp add: s4_def s2_def pre_def emit_def)
  have pre: "filter is_SendMessage pre = []" "filter is_Execute pre = []"
    by (simp_all add: pre_def is_SendMessage_def is_Execute_def)
  from run_command_raises [OF assms(7,8,9,10), of cmd s4]
  obtain line tail where r:
    "run_command sk m (from_jid ?info) cmd c args s4 =
       (None, s4\<lparr>trace := trace s4 @ [Execute c m args, Log ''danger'' line,
                    SendMessage (from_jid ?info) (''Error executing command: '' @ message_or_unknown err)]
                  @ tail\<rparr>)"
    "take (length (''Error executing command '' @ cmd)) line = ''Error executing command '' @ cmd"
    "filter is_SendMessage tail = []"
    by blast
  have "handleIncomingMessage_try prefixes now sk (Some m) s
      = (case process_command prefixes sk m ?info s2 of
           (None, s3) \<Rightarrow> (None, s3)
         | (Some t, s3) \<Rightarrow> (Some (Error t), s3))"
    using assms(2,3,4)
    by (simp add: try_accepted [OF assms(1)] s2_def Let_def)
  also have "\<dots> = (None, s4\<lparr>trace := trace s4 @ [Execute c m args, Log ''danger'' line,
                    SendMessage (from_jid ?info) (''Error executing command: '' @ message_or_unknown err)]
                  @ tail\<rparr>)"
    unfolding p s4_def [symmetric] r(1) by simp
  finally have "handleIncomingMessage_result prefixes now sk (Some m) s
      = (None, s4\<lparr>trace := trace s4 @ [Execute c m args, Log ''danger'' line,
                    SendMessage (from_jid ?info) (''Error executing command: '' @ message_or_unknown err)]
                  @ tail\<rparr>)"
    by (simp add: handleIncomingMessage_result_def)
  then have "handleIncomingMessage_result prefixes now sk (Some m) s =
             (None, s\<lparr>processedMessagesCache := cache_set (processedMessagesCache s) now i,
                      trace := trace s @ pre
                        @ [Execute c m args, Log ''danger'' line,
                           SendMessage (from_jid ?info)
                             (''Error executing command: '' @ message_or_unknown err)]
                        @ tail\<rparr>)"
    by (simp add: s4)
  with r(2,3) pre show ?thesis
    by blast
qed

text \<open>
  Claim C4.  A handler that rejects with \<open>undefined\<close> is caught at the dispatch boundary, but
  \<open>handleError\<close> raises on the caught value before anything is logged or sent: the outer
  \<open>catch\<close> logs the TypeError as a fault of processing the message, with no mention of the
  command, and no notification is sent to the chat.  The call still returns, and the batch
  loop goes on to the next message.
\<close>

theorem nullish_fault_unreported:
  "trace (handleIncomingMessage config_prefixes 1000 quiet_sock
            (Some (text_msg ''62811@s.whatsapp.net'' ''3EB0D4'' ''/void now'')) void_state)
     = [CacheSet ''3EB0D4'',
        ReadMessages \<lparr>remoteJid = Some ''62811@s.whatsapp.net'', msgId = Some ''3EB0D4''\<rparr>,
        Log ''success'' ''void from Ann in Private Chat'',
        Execute void_command (text_msg ''62811@s.whatsapp.net'' ''3EB0D4'' ''/void now'') [''now''],
        Log ''danger'' (''Error processing message: '' @ type_error_message ''message'')]
   \<and> filter is_SendMessage
        (trace (handleIncomingMessage config_prefixes 1000 quiet_sock
                  (Some (text_msg ''62811@s.whatsapp.net'' ''3EB0D4'' ''/void now'')) void_state))
     = []
   \<and> fst (handleIncomingMessage_result config_prefixes 1000 quiet_sock
             (Some (text_msg ''62811@s.whatsapp.net'' ''3EB0D4'' ''/void now'')) void_state)
     = None
   \<and> filter is_Execute
        (trace (messages_upsert config_prefixes quiet_sock ''notify''
                  [(1000, text_msg ''62811@s.whatsapp.net'' ''3EB0D4'' ''/void now''),
                   (1500, text_msg ''62811@s.whatsapp.net'' ''3EB0D5'' ''/yt foo'')] void_state))
     = [Execute void_command (text_msg ''62811@s.whatsapp.net'' ''3EB0D4'' ''/void now'') [''now''],
        Execute yt_command (text_msg ''62811@s.whatsapp.net'' ''3EB0D5'' ''/yt foo'') [''foo'']]"
  by (simp add: dispatch_defs string_defs void_state_eq text_msg_def quiet_sock_def
        config_prefixes_def void_command_def yt_command_def is_SendMessage_def is_Execute_def
        messages_upsert_def truthy_id_def)

lemma handle_executes:
  assumes "passes_filters now s m k i" "readMessages sk k = None"
  shows "filter is_Execute (trace (handleIncomingMessage prefixes now sk (Some m) s))
           = filter is_Execute (trace s) @ dispatched prefixes (commands s) m"
proof -
  obtain evs where
    "trace (handleIncomingMessage prefixes now sk (Some m) s)
       = trace s @ CacheSet i # ReadMessages k # evs"
    "filter is_Execute evs
       = (if readMessages sk k = None then dispatched prefixes (commands s) m else [])"
    using handle_accepted [OF assms(1), of prefixes sk] by blast
  with assms(2) show ?thesis
    by (simp add: is_Execute_def)
qed

lemma parse_samples:
  "parse_command config_prefixes ''/yt foo'' = Some (''yt'', [''foo''])"
  "parse_command config_prefixes ''!ytdl foo'' = Some (''ytdl'', [''foo''])"
  "parse_command config_prefixes ''.YT foo'' = Some (''yt'', [''foo''])"
  "parse_command config_prefixes ''yt foo'' = None"
  by (simp_all add: parse_command_def find_prefix_def config_prefixes_def string_defs)

lemma text_msg_info:
  assumes "jid \<noteq> []" "b \<noteq> []"
  shows "body (extractMessageInfo (Some (text_msg jid i b))) = b"
    "from_jid (extractMessageInfo (Some (text_msg jid i b))) = jid"
  using assms
  by (simp_all add: extractMessageInfo_def unknown_info_def extract_body_def text_of_def text_msg_def recognized_types_def or_default_def Let_def)

text \<open>
  Claim C5.  With the prefixes \<open>/\<close>, \<open>!\<close> and \<open>.\<close> and a registry loaded from one unit
  with name \<open>yt\<close> and alias \<open>ytdl\<close>, a message with the text \<open>/yt foo\<close>, \<open>!ytdl foo\<close> or
  \<open>.YT foo\<close> that gets past the filters runs that unit's handler once, with the arguments
  \<open>[foo]\<close>; with the text \<open>yt foo\<close> it runs no handler.  The prefix used is the first one
  in the configured order that the body starts with.
\<close>

theorem prefix_alias_resolution:
  "(name c = Some ''yt'' \<and> aliases c = AliasArray [''ytdl''] \<and> execute c = Some f
   \<and> endsWith fname ''.js''
   \<and> commands s = fst (loadCommands dir (DirListing [(fname, Module (Some c))]))
   \<and> jid \<noteq> [] \<and> jid \<noteq> ''status@broadcast'' \<and> \<not> (startsWith i ''BAE5'' \<and> length i = 16)
   \<and> \<not> cache_has (processedMessagesCache s) now i
   \<and> readMessages sk \<lparr>remoteJid = Some jid, msgId = Some i\<rparr> = None
   \<longrightarrow>
     (\<forall>b \<in> set [''/yt foo'', ''!ytdl foo'', ''.YT foo''].
        filter is_Execute
          (trace (handleIncomingMessage config_prefixes now sk (Some (text_msg jid i b)) s))
        = filter is_Execute (trace s) @ [Execute c (text_msg jid i b) [''foo'']])
     \<and> filter is_Execute
          (trace (handleIncomingMessage config_prefixes now sk (Some (text_msg jid i ''yt foo'')) s))
        = filter is_Execute (trace s))
   \<and> (find_prefix prefixes b = Some p \<longrightarrow>
        (\<exists>n < length prefixes. prefixes ! n = p \<and> startsWith b p
             \<and> (\<forall>j < n. \<not> startsWith b (prefixes ! j))))"
proof (intro conjI impI)
  assume "find_prefix prefixes b = Some p"
  then show "\<exists>n < length prefixes. prefixes ! n = p \<and> startsWith b p
             \<and> (\<forall>j < n. \<not> startsWith b (prefixes ! j))"
    unfolding find_prefix_def find_Some_iff by blast
next
  assume a: "name c = Some ''yt'' \<and> aliases c = AliasArray [''ytdl''] \<and> execute c = Some f
   \<and> endsWith fname ''.js''
   \<and> commands s = fst (loadCommands dir (DirListing [(fname, Module (Some c))]))
   \<and> jid \<noteq> [] \<and> jid \<noteq> ''status@broadcast'' \<and> \<not> (startsWith i ''BAE5'' \<and> length i = 16)
   \<and> \<not> cache_has (processedMessagesCache s) now i
   \<and> readMessages sk \<lparr>remoteJid = Some jid, msgId = Some i\<rparr> = None"
  let ?k = "\<lparr>remoteJid = Some jid, msgId = Some i\<rparr>"
  from a have reg: "commands s = [(''yt'', c), (''ytdl'', c)]"
    by (simp add: loadCommands_def load_file_def)
  from a have ex: "execute c = Some f" and jid: "jid \<noteq> []" and rm: "readMessages sk ?k = None"
    by simp_all
  have pf: "passes_filters now s (text_msg jid i b) ?k i" for b
    using a by (simp add: passes_filters_def text_msg_def)
  have ex_eq: "filter is_Execute
          (trace (handleIncomingMessage config_prefixes now sk (Some (text_msg jid i b)) s))
        = filter is_Execute (trace s) @ dispatched config_prefixes (commands s) (text_msg jid i b)" for b
    by (rule handle_executes [OF pf rm])
  have d1: "dispatched config_prefixes (commands s) (text_msg jid i ''/yt foo'')
      = [Execute c (text_msg jid i ''/yt foo'') [''foo'']]"
    using text_msg_info [OF jid, of "''/yt foo''" i]
    by (simp add: dispatched_def parse_samples reg ex jid)
  have d2: "dispatched config_prefixes (commands s) (text_msg jid i ''!ytdl foo'')
      = [Execute c (text_msg jid i ''!ytdl foo'') [''foo'']]"
    using text_msg_info [OF jid, of "''!ytdl foo''" i]
    by (simp add: dispatched_def parse_samples reg ex jid)
  have d3: "dispatched config_prefixes (commands s) (text_msg jid i ''.YT foo'')
      = [Execute c (text_msg jid i ''.YT foo'') [''foo'']]"
    using text_msg_info [OF jid, of "''.YT foo''" i]
    by (simp add: dispatched_def parse_samples reg ex jid)
  have d4: "dispatched config_prefixes (commands s) (text_msg jid i ''yt foo'') = []"
    using text_msg_info [OF jid, of "''yt foo''" i]
    by (simp add: dispatched_def parse_samples jid)
  show "\<forall>b \<in> set [''/yt foo'', ''!ytdl foo'', ''.YT foo''].
        filter is_Execute
          (trace (handleIncomingMessage config_prefixes now sk (Some (text_msg jid i b)) s))
        = filter is_Execute (trace s) @ [Execute c (text_msg jid i b) [''foo'']]"
    by (simp add: ex_eq d1 d2 d3)
  show "filter is_Execute
          (trace (handleIncomingMessage config_prefixes now sk (Some (text_msg jid i ''yt foo'')) s))
        = filter is_Execute (trace s)"
    by (simp add: ex_eq d4)
qed

theorem prefix_alias_resolution_witness:
  "name yt_command = Some ''yt'' \<and> aliases yt_command = AliasArray [''ytdl'']
   \<and> execute yt_command = Some (\<lambda>_ _. None) \<and> endsWith ''yt.js'' ''.js''
   \<and> \<not> cache_has (processedMessagesCache empty_state) 1000 ''3EB0E5''
   \<and> find_prefix [''!'', ''!!''] ''!!yt'' = Some ''!''
   \<and> filter is_Execute
        (trace (handleIncomingMessage config_prefixes 1000 quiet_sock
                  (Some (text_msg ''62811@s.whatsapp.net'' ''3EB0E5'' ''.YT foo''))
                  (empty_state\<lparr>commands := fst (loadCommands ''/bot/commands''
                       (DirListing [(''yt.js'', Module (Some yt_command))]))\<rparr>)))
       = [Execute yt_command (text_msg ''62811@s.whatsapp.net'' ''3EB0E5'' ''.YT foo'') [''foo'']]
   \<and> filter is_Execute
        (trace (handleIncomingMessage config_prefixes 1000 quiet_sock
                  (Some (text_msg ''62811@s.whatsapp.net'' ''3EB0E5'' ''yt foo''))
                  (empty_state\<lparr>commands := fst (loadCommands ''/bot/commands''
                       (DirListing [(''yt.js'', Module (Some yt_command))]))\<rparr>)))
       = []"
  using prefix_alias_resolution
    [where c = yt_command and f = "\<lambda>_ _. None" and fname = "''yt.js''" and dir = "''/bot/commands''"
       and s = "empty_state\<lparr>commands := fst (loadCommands ''/bot/commands''
                       (DirListing [(''yt.js'', Module (Some yt_command))]))\<rparr>"
       and jid = "''62811@s.whatsapp.net''" and i = "''3EB0E5''" and now = 1000 and sk = quiet_sock
       and prefixes = "[''!'', ''!!'']" and b = "''!!yt''" and p = "''!''"]
  by (simp add: yt_command_def endsWith_def startsWith_def empty_state_def cache_has_def
        object_prototype_members_def quiet_sock_def find_prefix_def)

section \<open>Reconnection\<close>

lemmas conn_defs = handleConnectionUpdate_def conn_emit_def process_exit_def close_code_def
  or_default_def Let_def

lemma scheduled_delays_append [simp]:
  "scheduled_delays (xs @ ys) = scheduled_delays xs @ scheduled_delays ys"
  by (simp add: scheduled_delays_def)

lemma scheduled_delays_simps [simp]:
  "scheduled_delays [] = []"
  "scheduled_delays (Log t u # evs) = scheduled_delays evs"
  "scheduled_delays (Unlink f # evs) = scheduled_delays evs"
  "scheduled_delays (Exit n # evs) = scheduled_delays evs"
  "scheduled_delays (ScheduleReconnect d # evs) = d # scheduled_delays evs"
  by (simp_all add: scheduled_delays_def)












section \<open>Removing the credentials\<close>

lemma unlink_files_all:
  assumes "\<forall>f \<in> set files. snd f = None"
  shows "unlink_files files = (True, [], map (\<lambda>f. Unlink (fst f)) files)"
  using assms
proof (induction files)
  case Nil
  then show ?case by simp
next
  case (Cons f files)
  then obtain n where "f = (n, None)"
    by (cases f) auto
  with Cons show ?case by simp
qed

lemma unlink_files_stop:
  assumes "\<forall>f \<in> set files. snd f = None"
  shows "unlink_files (files @ (stuck, Some e) # rest)
           = (False, (stuck, Some e) # rest,
              map (\<lambda>f. Unlink (fst f)) files
              @ [Log ''danger'' (''Failed to remove credentials: '' @ e)])"
  using assms
proof (induction files)
  case Nil
  then show ?case by (simp add: error_line_def)
next
  case (Cons f files)
  then obtain n where "f = (n, None)"
    by (cases f) auto
  with Cons show ?case by simp
qed

lemma unlink_files_events:
  "\<forall>e \<in> set (snd (snd (unlink_files files))). \<not> is_ScheduleReconnect e \<and> e \<noteq> Exit 1"
proof (induction files rule: unlink_files.induct)
  case 1
  then show ?case by simp
next
  case (2 fname rest)
  then show ?case
    by (auto simp: is_ScheduleReconnect_def split: prod.splits)
next
  case (3 fname e rest)
  then show ?case
    by (simp add: is_ScheduleReconnect_def error_line_def)
qed

lemma removeCreds_events:
  "\<forall>e \<in> set (snd (snd (removeCreds d))). \<not> is_ScheduleReconnect e \<and> e \<noteq> Exit 1"
proof (cases d)
  case (SessionUnreadable e)
  then show ?thesis
    by (simp add: removeCreds_def is_ScheduleReconnect_def error_line_def)
next
  case (SessionFiles files)
  with unlink_files_events [of files] show ?thesis
    by (auto simp: removeCreds_def split: prod.splits)
qed

lemma scheduled_delays_none:
  assumes "\<forall>e \<in> set evs. \<not> is_ScheduleReconnect e"
  shows "scheduled_delays evs = []"
  using assms
  by (induction evs) (auto simp: scheduled_delays_def is_ScheduleReconnect_def split: event.splits)

lemma auth_close_trace:
  assumes "auth_close loggedOut update"
  shows "conn_trace (handleConnectionUpdate loggedOut update s) =
           conn_trace s
           @ [closed_line update, terminated_line]
           @ snd (snd (removeCreds (sessionFolder s)))
           @ (if fst (removeCreds (sessionFolder s))
              then [Log ''info'' ''Credentials removed successfully.''] else [])
           @ [Exit 1]"
    and "sessionFolder (handleConnectionUpdate loggedOut update s) = fst (snd (removeCreds (sessionFolder s)))"
    and "exitCode (handleConnectionUpdate loggedOut update s) = Some 1"
    and "reconnectAttempts (handleConnectionUpdate loggedOut update s) = reconnectAttempts s"
  using assms
  by (auto simp: auth_close_def conn_defs closed_line_def terminated_line_def
        split: option.splits prod.splits)

text \<open>
  Claim C3, as stated, fails when a file of the session folder cannot be removed: the loop
  of \<open>removeCreds\<close> ends at that file, and the process exits with this file and the files
  after it still in the folder.
\<close>

theorem credentials_left_counterexample:
  "exitCode (handleConnectionUpdate 401 (close_update 401)
       (fresh_conn (SessionFiles [(''creds.json'', None),
                                  (''backup'', Some ''EISDIR: illegal operation on a directory, unlink''),
                                  (''pre-key-1.json'', None)]))) = Some 1
   \<and> sessionFolder (handleConnectionUpdate 401 (close_update 401)
       (fresh_conn (SessionFiles [(''creds.json'', None),
                                  (''backup'', Some ''EISDIR: illegal operation on a directory, unlink''),
                                  (''pre-key-1.json'', None)])))
     = SessionFiles [(''backup'', Some ''EISDIR: illegal operation on a directory, unlink''),
                     (''pre-key-1.json'', None)]"
  by (simp add: conn_defs close_update_def fresh_conn_def removeCreds_def error_line_def)

text \<open>
  Claim C3, amended.  On a close with the status \<open>loggedOut\<close>, 401 or 403 the handler logs
  the close and the end of the session, runs \<open>removeCreds\<close> and then exits the process with
  code 1.  When every file of the session folder can be removed, each is removed, in listing
  order, the success is logged and the folder is empty at the exit.  When a file cannot be
  removed, the files before it are removed, the failure is logged with its message, and the
  process exits with that file and the files after it still in the folder; when the folder
  cannot be listed, the failure is logged and the folder is as it was.  In every case the
  exit is the last effect, no retry is scheduled, the attempt counter is not touched, and no
  later connection event is handled.
\<close>

theorem auth_close_terminal:
  "auth_close loggedOut update \<longrightarrow>
     (sessionFolder s = SessionFiles files \<and> (\<forall>f \<in> set files. snd f = None) \<longrightarrow>
        sessionFolder (handleConnectionUpdate loggedOut update s) = SessionFiles []
        \<and> conn_trace (handleConnectionUpdate loggedOut update s) =
            conn_trace s @ [closed_line update, terminated_line]
            @ map (\<lambda>f. Unlink (fst f)) files
            @ [Log ''info'' ''Credentials removed successfully.'', Exit 1])
     \<and> (sessionFolder s = SessionFiles (files @ (stuck, Some e) # rest)
          \<and> (\<forall>f \<in> set files. snd f = None) \<longrightarrow>
        sessionFolder (handleConnectionUpdate loggedOut update s)
          = SessionFiles ((stuck, Some e) # rest)
        \<and> conn_trace (handleConnectionUpdate loggedOut update s) =
            conn_trace s @ [closed_line update, terminated_line]
            @ map (\<lambda>f. Unlink (fst f)) files
            @ [Log ''danger'' (''Failed to remove credentials: '' @ e), Exit 1])
     \<and> (sessionFolder s = SessionUnreadable e \<longrightarrow>
        sessionFolder (handleConnectionUpdate loggedOut update s) = SessionUnreadable e
        \<and> conn_trace (handleConnectionUpdate loggedOut update s) =
            conn_trace s
            @ [closed_line update, terminated_line,
               Log ''danger'' (''Failed to remove credentials: '' @ e), Exit 1])
     \<and> (\<exists>before. conn_trace (handleConnectionUpdate loggedOut update s)
                    = conn_trace s @ before @ [Exit 1]
                  \<and> (\<forall>e \<in> set before. \<not> is_ScheduleReconnect e \<and> e \<noteq> Exit 1))
     \<and> exitCode (handleConnectionUpdate loggedOut update s) = Some 1
     \<and> reconnectAttempts (handleConnectionUpdate loggedOut update s) = reconnectAttempts s
     \<and> scheduled_delays (conn_trace (handleConnectionUpdate loggedOut update s))
         = scheduled_delays (conn_trace s)
     \<and> (exitCode s = None \<longrightarrow>
          connection_updates loggedOut (update # later) s = handleConnectionUpdate loggedOut update s)"
proof
  assume a: "auth_close loggedOut update"
  let ?s' = "handleConnectionUpdate loggedOut update s"
  let ?r = "removeCreds (sessionFolder s)"
  note tr = auth_close_trace [OF a, of s]
  define before where "before = [closed_line update, terminated_line]
           @ snd (snd ?r)
           @ (if fst ?r then [Log ''info'' ''Credentials removed successfully.''] else [])"
  have b1: "conn_trace ?s' = conn_trace s @ before @ [Exit 1]"
    by (simp add: tr(1) before_def)
  have b2: "\<forall>e \<in> set before. \<not> is_ScheduleReconnect e \<and> e \<noteq> Exit 1"
    using removeCreds_events [of "sessionFolder s"]
    by (auto simp: before_def is_ScheduleReconnect_def closed_line_def terminated_line_def
          split: option.splits)
  have none: "scheduled_delays (conn_trace ?s') = scheduled_delays (conn_trace s)"
    using b2 by (simp add: b1 scheduled_delays_none)
  have all: "sessionFolder ?s' = SessionFiles []
        \<and> conn_trace ?s' =
            conn_trace s @ [closed_line update, terminated_line]
            @ map (\<lambda>f. Unlink (fst f)) files
            @ [Log ''info'' ''Credentials removed successfully.'', Exit 1]"
    if "sessionFolder s = SessionFiles files \<and> (\<forall>f \<in> set files. snd f = None)"
  proof -
    from that have "?r = (True, SessionFiles [], map (\<lambda>f. Unlink (fst f)) files)"
      by (simp add: removeCreds_def unlink_files_all)
    then show ?thesis
      by (simp add: tr(1,2))
  qed
  have stop: "sessionFolder ?s' = SessionFiles ((stuck, Some e) # rest)
        \<and> conn_trace ?s' =
            conn_trace s @ [closed_line update, terminated_line]
            @ map (\<lambda>f. Unlink (fst f)) files
            @ [Log ''danger'' (''Failed to remove credentials: '' @ e), Exit 1]"
    if "sessionFolder s = SessionFiles (files @ (stuck, Some e) # rest)
          \<and> (\<forall>f \<in> set files. snd f = None)"
  proof -
    from that have "?r = (False, SessionFiles ((stuck, Some e) # rest),
        map (\<lambda>f. Unlink (fst f)) files @ [Log ''danger'' (''Failed to remove credentials: '' @ e)])"
      by (simp add: removeCreds_def unlink_files_stop)
    then show ?thesis
      by (simp add: tr(1,2))
  qed
  have unreadable: "sessionFolder ?s' = SessionUnreadable e
        \<and> conn_trace ?s' =
            conn_trace s
            @ [closed_line update, terminated_line,
               Log ''danger'' (''Failed to remove credentials: '' @ e), Exit 1]"
    if "sessionFolder s = SessionUnreadable e"
    using that by (simp add: tr(1,2) removeCreds_def error_line_def)
  have later: "connection_updates loggedOut (update # later) s = ?s'" if "exitCode s = None"
    using that tr(3) by (cases later) simp_all
  from all stop unreadable b1 b2 tr(3) tr(4) none later
  show "(sessionFolder s = SessionFiles files \<and> (\<forall>f \<in> set files. snd f = None) \<longrightarrow>
        sessionFolder ?s' = SessionFiles []
        \<and> conn_trace ?s' =
            conn_trace s @ [closed_line update, terminated_line]
            @ map (\<lambda>f. Unlink (fst f)) files
            @ [Log ''info'' ''Credentials removed successfully.'', Exit 1])
     \<and> (sessionFolder s = SessionFiles (files @ (stuck, Some e) # rest)
          \<and> (\<forall>f \<in> set files. snd f = None) \<longrightarrow>
        sessionFolder ?s' = SessionFiles ((stuck, Some e) # rest)
        \<and> conn_trace ?s' =
            conn_trace s @ [closed_line update, terminated_line]
            @ map (\<lambda>f. Unlink (fst f)) files
            @ [Log ''danger'' (''Failed to remove credentials: '' @ e), Exit 1])
     \<and> (sessionFolder s = SessionUnreadable e \<longrightarrow>
        sessionFolder ?s' = SessionUnreadable e
        \<and> conn_trace ?s' =
            conn_trace s
            @ [closed_line update, terminated_line,
               Log ''danger'' (''Failed to remove credentials: '' @ e), Exit 1])
     \<and> (\<exists>before. conn_trace ?s' = conn_trace s @ before @ [Exit 1]
                  \<and> (\<forall>e \<in> set before. \<not> is_ScheduleReconnect e \<and> e \<noteq> Exit 1))
     \<and> exitCode ?s' = Some 1
     \<and> reconnectAttempts ?s' = reconnectAttempts s
     \<and> scheduled_delays (conn_trace ?s') = scheduled_delays (conn_trace s)
     \<and> (exitCode s = None \<longrightarrow> connection_updates loggedOut (update # later) s = ?s')"
    by blast
qed

theorem auth_close_terminal_witness:
  "auth_close 401 (close_update 403)
   \<and> auth_close 401 (close_update 401)
   \<and> snd (''creds.json'', None :: string option) = None
   \<and> snd (''pre-key-1.json'', None :: string option) = None
   \<and> sessionFolder (handleConnectionUpdate 401 (close_update 403)
        (fresh_conn (SessionFiles [(''creds.json'', None), (''pre-key-1.json'', None)])))
      = SessionFiles []
   \<and> conn_trace (handleConnectionUpdate 401 (close_update 403)
        (fresh_conn (SessionFiles [(''creds.json'', None), (''pre-key-1.json'', None)])))
      = [Log ''danger'' ''Connection closed. Status: 403. Reason: Connection Failure'',
         Log ''error'' ''Session has been terminated. Please re-authenticate.'',
         Unlink ''creds.json'', Unlink ''pre-key-1.json'',
         Log ''info'' ''Credentials removed successfully.'', Exit 1]
   \<and> sessionFolder (handleConnectionUpdate 401 (close_update 401)
        (fresh_conn (SessionFiles [(''creds.json'', None),
                                   (''backup'', Some ''EISDIR: illegal operation on a directory, unlink''),
                                   (''pre-key-1.json'', None)])))
      = SessionFiles [(''backup'', Some ''EISDIR: illegal operation on a directory, unlink''),
                      (''pre-key-1.json'', None)]
   \<and> conn_trace (handleConnectionUpdate 401 (close_update 401)
        (fresh_conn (SessionFiles [(''creds.json'', None),
                                   (''backup'', Some ''EISDIR: illegal operation on a directory, unlink''),
                                   (''pre-key-1.json'', None)])))
      = [Log ''danger'' ''Connection closed. Status: 401. Reason: Connection Failure'',
         Log ''error'' ''Session has been terminated. Please re-authenticate.'',
         Unlink ''creds.json'',
         Log ''danger'' ''Failed to remove credentials: EISDIR: illegal operation on a directory, unlink'',
         Exit 1]
   \<and> sessionFolder (handleConnectionUpdate 401 (close_update 401)
        (fresh_conn (SessionUnreadable ''ENOENT: no such file or directory, scandir'')))
      = SessionUnreadable ''ENOENT: no such file or directory, scandir''
   \<and> conn_trace (handleConnectionUpdate 401 (close_update 401)
        (fresh_conn (SessionUnreadable ''ENOENT: no such file or directory, scandir'')))
      = [Log ''danger'' ''Connection closed. Status: 401. Reason: Connection Failure'',
         Log ''error'' ''Session has been terminated. Please re-authenticate.'',
         Log ''danger'' ''Failed to remove credentials: ENOENT: no such file or directory, scandir'',
         Exit 1]
   \<and> exitCode (handleConnectionUpdate 401 (close_update 403)
        (fresh_conn (SessionFiles [(''creds.json'', None), (''pre-key-1.json'', None)]))) = Some 1
   \<and> scheduled_delays (conn_trace (connection_updates 401
        [close_update 403, close_update 428, open_update]
        (fresh_conn (SessionFiles [(''creds.json'', None), (''pre-key-1.json'', None)])))) = []"
proof -
  let ?files = "[(''creds.json'', None), (''pre-key-1.json'', None)] :: (string \<times> string option) list"
  let ?eisdir = "''EISDIR: illegal operation on a directory, unlink''"
  let ?enoent = "''ENOENT: no such file or directory, scandir''"
  let ?stuck = "[(''creds.json'', None)] @ (''backup'', Some ?eisdir) # [(''pre-key-1.json'', None)]"
  have a: "auth_close 401 (close_update 403)" "auth_close 401 (close_update 401)"
    by (simp_all add: auth_close_def close_update_def close_code_def)
  have f: "sessionFolder (fresh_conn d) = d" "exitCode (fresh_conn d) = None"
    "conn_trace (fresh_conn d) = []" for d
    by (simp_all add: fresh_conn_def)
  note f1 = f [of "SessionFiles ?files"]
  note f2 = f [of "SessionFiles ?stuck"]
  note f3 = f [of "SessionUnreadable ?enoent"]
  have r: "\<forall>f \<in> set ?files. snd f = None"
    "\<forall>f \<in> set [(''creds.json'', None :: string option)]. snd f = None"
    by simp_all
  have c: "closed_line (close_update 403)
             = Log ''danger'' ''Connection closed. Status: 403. Reason: Connection Failure''"
    "closed_line (close_update 401)
             = Log ''danger'' ''Connection closed. Status: 401. Reason: Connection Failure''"
    by (simp_all add: closed_line_def close_update_def close_code_def or_default_def show_nat.simps)
  note w1 = auth_close_terminal [where loggedOut = 401 and update = "close_update 403"
      and s = "fresh_conn (SessionFiles ?files)" and files = ?files
      and later = "[close_update 428, open_update]", THEN mp, OF a(1)]
  note w2 = auth_close_terminal [where loggedOut = 401 and update = "close_update 401"
      and s = "fresh_conn (SessionFiles ?stuck)" and files = "[(''creds.json'', None)]"
      and stuck = "''backup''" and e = ?eisdir and rest = "[(''pre-key-1.json'', None)]",
      THEN mp, OF a(2)]
  note w3 = auth_close_terminal [where loggedOut = 401 and update = "close_update 401"
      and s = "fresh_conn (SessionUnreadable ?enoent)" and e = ?enoent, THEN mp, OF a(2)]
  note q1 = w1 [THEN conjunct1, THEN mp, OF conjI, OF f1(1) r(1)]
  note q2 = w2 [THEN conjunct2, THEN conjunct1, THEN mp, OF conjI, OF f2(1) r(2)]
  note q3 = w3 [THEN conjunct2, THEN conjunct2, THEN conjunct1, THEN mp, OF f3(1)]
  note q5 = w1 [THEN conjunct2, THEN conjunct2, THEN conjunct2, THEN conjunct2, THEN conjunct1]
  note q7 = w1 [THEN conjunct2, THEN conjunct2, THEN conjunct2, THEN conjunct2, THEN conjunct2,
      THEN conjunct2, THEN conjunct1]
  note q8 = w1 [THEN conjunct2, THEN conjunct2, THEN conjunct2, THEN conjunct2, THEN conjunct2,
      THEN conjunct2, THEN conjunct2, THEN mp, OF f1(2)]
  have p1: "sessionFolder (handleConnectionUpdate 401 (close_update 403)
        (fresh_conn (SessionFiles ?files))) = SessionFiles []"
    "conn_trace (handleConnectionUpdate 401 (close_update 403)
        (fresh_conn (SessionFiles ?files)))
      = [Log ''danger'' ''Connection closed. Status: 403. Reason: Connection Failure'',
         Log ''error'' ''Session has been terminated. Please re-authenticate.'',
         Unlink ''creds.json'', Unlink ''pre-key-1.json'',
         Log ''info'' ''Credentials removed successfully.'', Exit 1]"
    using q1 by (simp_all only: f c terminated_line_def list.map fst_conv append.simps)
  have p2: "sessionFolder (handleConnectionUpdate 401 (close_update 401)
        (fresh_conn (SessionFiles ?stuck)))
          = SessionFiles [(''backup'', Some ?eisdir), (''pre-key-1.json'', None)]"
    "conn_trace (handleConnectionUpdate 401 (close_update 401)
        (fresh_conn (SessionFiles ?stuck)))
      = [Log ''danger'' ''Connection closed. Status: 401. Reason: Connection Failure'',
         Log ''error'' ''Session has been terminated. Please re-authenticate.'',
         Unlink ''creds.json'',
         Log ''danger'' ''Failed to remove credentials: EISDIR: illegal operation on a directory, unlink'',
         Exit 1]"
    using q2 by (simp_all only: f c terminated_line_def list.map fst_conv append.simps)
  have p3: "sessionFolder (handleConnectionUpdate 401 (close_update 401)
        (fresh_conn (SessionUnreadable ?enoent))) = SessionUnreadable ?enoent"
    "conn_trace (handleConnectionUpdate 401 (close_update 401)
        (fresh_conn (SessionUnreadable ?enoent)))
      = [Log ''danger'' ''Connection closed. Status: 401. Reason: Connection Failure'',
         Log ''error'' ''Session has been terminated. Please re-authenticate.'',
         Log ''danger'' ''Failed to remove credentials: ENOENT: no such file or directory, scandir'',
         Exit 1]"
    using q3 by (simp_all only: f c terminated_line_def list.map fst_conv append.simps)
  have p5: "scheduled_delays (conn_trace (connection_updates 401
        [close_update 403, close_update 428, open_update] (fresh_conn (SessionFiles ?files)))) = []"
    unfolding q8 q7 f1 by (simp add: scheduled_delays_def)
  have st: "?stuck = [(''creds.json'', None), (''backup'', Some ?eisdir), (''pre-key-1.json'', None)]"
    by simp
  from a p1 p2 [unfolded st] p3 q5 p5 show ?thesis
    by (simp del: connection_updates.simps)
qed

section \<open>The registry that the loader builds\<close>

lemma map_of_fold_update:
  "map_of (fold (\<lambda>alias m. AList.update alias c m) as cmds) k
     = (if k \<in> set as then Some c else map_of cmds k)"
  by (induction as arbitrary: cmds) (auto simp: update_conv')

lemma load_file_js:
  assumes "endsWith (fst fr) ''.js''" "\<not> raises_nullish fr"
  shows "fst (load_file fr (cmds, evs)) = None"
    and "map_of (fst (snd (load_file fr (cmds, evs)))) k
           = (case last_with_key k (installed_unit fr) of Some c \<Rightarrow> Some c | None \<Rightarrow> map_of cmds k)"
    and "snd (snd (load_file fr (cmds, evs))) = evs @ skip_log fr"
  using assms
  by (cases fr; auto simp: load_file_def installed_unit_def valid_unit_def last_with_key_def
        unit_keys_def skip_log_def map_of_fold_update update_conv' Let_def raises_nullish_def
        handleError_def error_line_def invalid_structure_def
        split: import_result.splits option.splits aliases_value.splits thrown.splits)+

lemma load_file_nullish:
  assumes "raises_nullish fr"
  shows "load_file fr (cmds, evs) = (Some (type_error_message ''message''), cmds, evs)"
  using assms
  by (cases fr)
     (auto simp: load_file_def raises_nullish_def handleError_def
        split: import_result.splits thrown.splits)

lemma find_app:
  "find P (xs @ ys) = (case find P xs of None \<Rightarrow> find P ys | Some x \<Rightarrow> Some x)"
  by (induction xs) simp_all

lemma last_with_key_append:
  "last_with_key k (xs @ ys)
     = (case last_with_key k ys of Some c \<Rightarrow> Some c | None \<Rightarrow> last_with_key k xs)"
  by (simp add: last_with_key_def find_app split: option.splits)

lemma load_files_js:
  assumes "\<forall>fr \<in> set files. endsWith (fst fr) ''.js''"
  shows "fst (load_files files (cmds, evs))
           = (if list_ex raises_nullish files then Some (type_error_message ''message'') else None)
         \<and> map_of (fst (snd (load_files files (cmds, evs)))) k
           = (case last_with_key k (installed_units (loaded_entries files)) of
                Some c \<Rightarrow> Some c
              | None \<Rightarrow> map_of cmds k)
         \<and> snd (snd (load_files files (cmds, evs)))
           = evs @ concat (map skip_log (loaded_entries files))"
  using assms
proof (induction files arbitrary: cmds evs)
  case Nil
  then show ?case
    by (simp add: installed_units_def last_with_key_def loaded_entries_def)
next
  case (Cons fr files)
  show ?case
  proof (cases "raises_nullish fr")
    case True
    then show ?thesis
      by (simp add: load_file_nullish loaded_entries_def installed_units_def last_with_key_def)
  next
    case False
    from Cons.prems have js: "endsWith (fst fr) ''.js''"
      and rest: "\<forall>fr \<in> set files. endsWith (fst fr) ''.js''"
      by simp_all
    obtain cmds' evs' where step: "load_file fr (cmds, evs) = (None, cmds', evs')"
      using load_file_js(1) [OF js False, of cmds evs]
      by (cases "load_file fr (cmds, evs)") auto
    from load_file_js(2) [OF js False, of cmds evs k] load_file_js(3) [OF js False, of cmds evs] step
    have one: "map_of cmds' k
        = (case last_with_key k (installed_unit fr) of Some c \<Rightarrow> Some c | None \<Rightarrow> map_of cmds k)"
      "evs' = evs @ skip_log fr"
      by simp_all
    note ih = Cons.IH [OF rest, of cmds' evs']
    have units: "installed_units (loaded_entries (fr # files))
        = installed_unit fr @ installed_units (loaded_entries files)"
      using False by (simp add: installed_units_def loaded_entries_def)
    have logs: "concat (map skip_log (loaded_entries (fr # files)))
        = skip_log fr @ concat (map skip_log (loaded_entries files))"
      using False by (simp add: loaded_entries_def)
    have ex: "list_ex raises_nullish (fr # files) = list_ex raises_nullish files"
      using False by simp
    have run: "load_files (fr # files) (cmds, evs) = load_files files (cmds', evs')"
      by (simp add: step)
    have "map_of (fst (snd (load_files (fr # files) (cmds, evs)))) k
           = (case last_with_key k (installed_units (loaded_entries (fr # files))) of
                Some c \<Rightarrow> Some c
              | None \<Rightarrow> map_of cmds k)"
      unfolding run units last_with_key_append using ih one(1)
      by (simp split: option.splits)
    moreover have "snd (snd (load_files (fr # files) (cmds, evs)))
        = evs @ concat (map skip_log (loaded_entries (fr # files)))"
      unfolding run logs using ih by (simp add: one(2))
    moreover have "fst (load_files (fr # files) (cmds, evs))
        = (if list_ex raises_nullish (fr # files) then Some (type_error_message ''message'') else None)"
      unfolding run ex using ih by simp
    ultimately show ?thesis
      by blast
  qed
qed

lemma loaded_entries_filter:
  "loaded_entries (filter (\<lambda>(f, _). endsWith f ''.js'') entries)
     = filter (\<lambda>(f, _). endsWith f ''.js'') (loaded_entries entries)"
  by (induction entries)
     (auto simp: loaded_entries_def raises_nullish_def
        split: import_result.splits thrown.splits)

lemma list_ex_filter_js:
  "list_ex raises_nullish (filter (\<lambda>(f, _). endsWith f ''.js'') entries)
     = list_ex raises_nullish entries"
  by (induction entries)
     (auto simp: raises_nullish_def split: import_result.splits thrown.splits)

lemma installed_units_filter:
  "installed_units (filter (\<lambda>(f, _). endsWith f ''.js'') entries) = installed_units entries"
  by (induction entries)
     (auto simp: installed_units_def installed_unit_def
        split: import_result.splits option.splits)

lemma skip_log_filter:
  "concat (map skip_log (filter (\<lambda>(f, _). endsWith f ''.js'') entries))
     = concat (map skip_log entries)"
  by (induction entries)
     (auto simp: skip_log_def split: import_result.splits option.splits thrown.splits)

lemma installed_units_append:
  "installed_units (xs @ ys) = installed_units xs @ installed_units ys"
  by (simp add: installed_units_def)

lemma last_with_key_none:
  "(\<forall>c \<in> set units. k \<notin> set (unit_keys c)) \<Longrightarrow> last_with_key k units = None"
  by (simp add: last_with_key_def find_None_iff)

lemma loadCommands_listing:
  "map_of (fst (loadCommands dir (DirListing entries))) k
     = last_with_key k (installed_units (loaded_entries entries))"
  "snd (loadCommands dir (DirListing entries))
     = Log ''info'' (''Found ''
           @ show_nat (length (filter (\<lambda>(f, _). endsWith f ''.js'') entries))
           @ '' command files'')
       # concat (map skip_log (loaded_entries entries)) @ load_aborted entries"
proof -
  let ?files = "filter (\<lambda>(f, _). endsWith f ''.js'') entries"
  let ?found = "Log ''info'' (''Found '' @ show_nat (length ?files) @ '' command files'')"
  have js: "\<forall>fr \<in> set ?files. endsWith (fst fr) ''.js''"
    by auto
  obtain t cmds evs where r: "load_files ?files ([], [?found]) = (t, cmds, evs)"
    by (cases "load_files ?files ([], [?found])")
  from load_files_js [OF js, of "[]" "[?found]" k] r
  have t: "t = (if list_ex raises_nullish entries then Some (type_error_message ''message'') else None)"
    and cmds: "map_of cmds k = last_with_key k (installed_units (loaded_entries entries))"
    and evs: "evs = ?found # concat (map skip_log (loaded_entries entries))"
    unfolding loaded_entries_filter installed_units_filter skip_log_filter list_ex_filter_js
    by (simp_all split: option.splits)
  have l: "loadCommands dir (DirListing entries)
      = (cmds, evs @ (case t of None \<Rightarrow> [] | Some m \<Rightarrow> [error_line ''Error loading commands'' m]))"
    unfolding loadCommands_def commands_dir.case Let_def r
    by (simp split: option.splits)
  show "map_of (fst (loadCommands dir (DirListing entries))) k
     = last_with_key k (installed_units (loaded_entries entries))"
    by (simp add: l cmds)
  show "snd (loadCommands dir (DirListing entries))
     = Log ''info'' (''Found ''
           @ show_nat (length (filter (\<lambda>(f, _). endsWith f ''.js'') entries))
           @ '' command files'')
       # concat (map skip_log (loaded_entries entries)) @ load_aborted entries"
    by (simp add: l evs t load_aborted_def error_line_def)
qed

text \<open>
  Claim C7, as stated, fails in two ways.  An import that raises an error object is not
  skipped with a warning: its line is logged at the level \<open>danger\<close>.  And an import that
  rejects with \<open>undefined\<close> makes \<open>handleError\<close> raise in the \<open>catch\<close> of the loop body; the
  outer \<open>catch\<close> ends the load, and the valid unit \<open>yt.js\<close> listed after it is not installed.
\<close>

theorem failed_import_counterexample:
  "snd (loadCommands ''/bot/commands''
      (DirListing [(''bad.js'', ImportThrows (Error ''Unexpected token''))]))
     = [Log ''info'' ''Found 1 command files'',
        Log ''danger'' ''Failed to load command file: bad.js: Unexpected token'']
   \<and> map_of (fst (loadCommands ''/bot/commands''
      (DirListing [(''void.js'', ImportThrows Nullish), (''yt.js'', Module (Some yt_command))]))) ''yt''
     = None
   \<and> snd (loadCommands ''/bot/commands''
      (DirListing [(''void.js'', ImportThrows Nullish), (''yt.js'', Module (Some yt_command))]))
     = [Log ''info'' ''Found 2 command files'',
        Log ''danger'' ''Error loading commands: Cannot read properties of undefined (reading 'message')'']"
  by (simp add: loadCommands_def load_file_def handleError_def error_line_def
        type_error_message_def endsWith_def show_nat.simps)

text \<open>
  Claim C7, amended.  For a directory that can be listed and in which no import of a \<open>.js\<close>
  entry rejects with \<open>null\<close> or \<open>undefined\<close>, the map that \<open>loadCommands\<close> returns sends a
  key to the last unit, in listing order, among the valid default exports of the \<open>.js\<close>
  entries that has the key as its name or in its alias array, and to nothing when there is no
  such unit.  So a valid unit is found under its name and under each of its aliases, the same
  object under all of them, unless a unit loaded after it takes the key; an entry whose
  import raises and an entry without a name or an entry point are skipped, each with one log
  line (at the level \<open>danger\<close> for the failed import, a warning for the invalid structure), and
  do not change what the other entries install.
\<close>

theorem loadCommands_registry:
  "(\<forall>fr \<in> set entries. \<not> raises_nullish fr) \<longrightarrow>
     map_of (fst (loadCommands dir (DirListing entries))) k
       = last_with_key k (installed_units entries)
     \<and> snd (loadCommands dir (DirListing entries))
         = Log ''info'' (''Found ''
               @ show_nat (length (filter (\<lambda>(f, _). endsWith f ''.js'') entries))
               @ '' command files'')
           # concat (map skip_log entries)
     \<and> (entries = before @ [(fname, Module (Some c))] @ after
          \<and> endsWith fname ''.js'' \<and> valid_unit c \<and> k \<in> set (unit_keys c)
          \<and> (\<forall>c' \<in> set (installed_units after). k \<notin> set (unit_keys c'))
        \<longrightarrow> map_of (fst (loadCommands dir (DirListing entries))) k = Some c)"
proof
  assume n: "\<forall>fr \<in> set entries. \<not> raises_nullish fr"
  then have whole: "loaded_entries entries = entries" "load_aborted entries = []"
    by (simp_all add: loaded_entries_def load_aborted_def list_ex_iff)
  have reg: "map_of (fst (loadCommands dir (DirListing entries))) k
      = last_with_key k (installed_units entries)"
    using loadCommands_listing(1) [of dir entries k] by (simp only: whole)
  have logs: "snd (loadCommands dir (DirListing entries))
         = Log ''info'' (''Found ''
               @ show_nat (length (filter (\<lambda>(f, _). endsWith f ''.js'') entries))
               @ '' command files'')
           # concat (map skip_log entries)"
    using loadCommands_listing(2) [of dir entries] by (simp only: whole append_Nil2)
  have win: "map_of (fst (loadCommands dir (DirListing entries))) k = Some c"
    if a: "entries = before @ [(fname, Module (Some c))] @ after
        \<and> endsWith fname ''.js'' \<and> valid_unit c \<and> k \<in> set (unit_keys c)
        \<and> (\<forall>c' \<in> set (installed_units after). k \<notin> set (unit_keys c'))"
  proof -
    from a have "installed_units entries = (installed_units before @ [c]) @ installed_units after"
      by (simp add: installed_units_append) (simp add: installed_units_def installed_unit_def)
    moreover from a have "last_with_key k (installed_units after) = None"
      by (intro last_with_key_none) simp
    moreover from a have "last_with_key k (installed_units before @ [c]) = Some c"
      by (simp add: last_with_key_def)
    ultimately show ?thesis
      unfolding reg by (simp only: last_with_key_append option.case)
  qed
  from reg logs win
  show "map_of (fst (loadCommands dir (DirListing entries))) k
       = last_with_key k (installed_units entries)
     \<and> snd (loadCommands dir (DirListing entries))
         = Log ''info'' (''Found ''
               @ show_nat (length (filter (\<lambda>(f, _). endsWith f ''.js'') entries))
               @ '' command files'')
           # concat (map skip_log entries)
     \<and> (entries = before @ [(fname, Module (Some c))] @ after
          \<and> endsWith fname ''.js'' \<and> valid_unit c \<and> k \<in> set (unit_keys c)
          \<and> (\<forall>c' \<in> set (installed_units after). k \<notin> set (unit_keys c'))
        \<longrightarrow> map_of (fst (loadCommands dir (DirListing entries))) k = Some c)"
    by blast
qed

theorem loadCommands_registry_witness:
  "endsWith ''ytdl.js'' ''.js'' \<and> valid_unit ytdl_command \<and> ''ytdl'' \<in> set (unit_keys ytdl_command)
   \<and> map_of (fst (loadCommands ''/bot/commands''
         (DirListing (sample_entries @ [(''ytdl.js'', Module (Some ytdl_command))])))) ''ytdl''
       = Some ytdl_command
   \<and> map_of (fst (loadCommands ''/bot/commands''
         (DirListing (sample_entries @ [(''ytdl.js'', Module (Some ytdl_command))])))) ''yt''
       = Some yt_command
   \<and> map_of (fst (loadCommands ''/bot/commands''
         (DirListing (sample_entries @ [(''ytdl.js'', Module (Some ytdl_command))])))) ''boom''
       = None
   \<and> snd (loadCommands ''/bot/commands''
         (DirListing (sample_entries @ [(''ytdl.js'', Module (Some ytdl_command))])))
       = [Log ''info'' ''Found 4 command files'',
          Log ''danger'' ''Failed to load command file: bad.js: Unexpected token'',
          Log ''warning'' ''Invalid command structure in noname.js. Skipping...'']"
proof -
  let ?entries = "sample_entries @ [(''ytdl.js'', Module (Some ytdl_command))]"
  let ?reg = "fst (loadCommands ''/bot/commands'' (DirListing ?entries))"
  have h: "endsWith ''ytdl.js'' ''.js''" "valid_unit ytdl_command"
    "''ytdl'' \<in> set (unit_keys ytdl_command)"
    by (simp_all add: endsWith_def valid_unit_def unit_keys_def ytdl_command_def)
  have n: "\<forall>fr \<in> set ?entries. \<not> raises_nullish fr"
    by (simp add: sample_entries_def raises_nullish_def)
  have e: "?entries = sample_entries @ [(''ytdl.js'', Module (Some ytdl_command))] @ []"
    by simp
  have v: "\<forall>c' \<in> set (installed_units []). ''ytdl'' \<notin> set (unit_keys c')"
    by (simp add: installed_units_def)
  have units: "installed_units ?entries = [yt_command, ytdl_command]"
    by (simp add: installed_units_def installed_unit_def sample_entries_def endsWith_def
          valid_unit_def yt_command_def ytdl_command_def failing_command_def)
  have keys: "unit_keys yt_command = [''yt'', ''ytdl'']" "unit_keys ytdl_command = [''ytdl'']"
    by (simp_all add: unit_keys_def yt_command_def ytdl_command_def)
  have skips: "concat (map skip_log ?entries)
      = [Log ''danger'' ''Failed to load command file: bad.js: Unexpected token'',
         Log ''warning'' ''Invalid command structure in noname.js. Skipping...'']"
    by (simp add: skip_log_def sample_entries_def endsWith_def valid_unit_def yt_command_def
          ytdl_command_def failing_command_def)
  have found: "show_nat (length (filter (\<lambda>(f, _). endsWith f ''.js'') ?entries)) = ''4''"
    by (simp add: sample_entries_def endsWith_def show_nat.simps)
  note w1 = loadCommands_registry [where dir = "''/bot/commands''" and entries = ?entries
      and before = sample_entries and fname = "''ytdl.js''" and c = ytdl_command and after = "[]"
      and k = "''ytdl''", THEN mp, OF n]
  note w2 = loadCommands_registry [where dir = "''/bot/commands''" and entries = ?entries
      and k = "''yt''", THEN mp, OF n]
  note w3 = loadCommands_registry [where dir = "''/bot/commands''" and entries = ?entries
      and k = "''boom''", THEN mp, OF n]
  from w1 e h v
  have r1: "map_of ?reg ''ytdl'' = Some ytdl_command"
    by blast
  have r2: "map_of ?reg ''yt'' = Some yt_command"
    unfolding w2 [THEN conjunct1] units last_with_key_def
    by (simp add: keys)
  have r3: "map_of ?reg ''boom'' = None"
    unfolding w3 [THEN conjunct1] units last_with_key_def
    by (simp add: keys)
  have r4: "snd (loadCommands ''/bot/commands'' (DirListing ?entries))
       = [Log ''info'' ''Found 4 command files'',
          Log ''danger'' ''Failed to load command file: bad.js: Unexpected token'',
          Log ''warning'' ''Invalid command structure in noname.js. Skipping...'']"
    unfolding w2 [THEN conjunct2, THEN conjunct1] skips found
    by simp
  from h r1 r2 r3 r4 show ?thesis
    by blast
qed

text \<open>
  Claim C6.  The reload assigns whatever map \<open>loadCommands\<close> returns.  When the only unit of
  the directory fails to import after an edit, and when the directory cannot be listed, that
  map is empty: a registry that held \<open>yt\<close> and \<open>ytdl\<close> is empty after the reload.
\<close>

theorem reload_drops_registry:
  "commands (reload_commands ''/bot/commands''
      (DirListing [(''yt.js'', ImportThrows (Error ''Unexpected token''))])
      (empty_state\<lparr>commands := [(''yt'', yt_command), (''ytdl'', yt_command)]\<rparr>)) = []
   \<and> commands (reload_commands ''/bot/commands''
      (DirUnreadable ''EACCES: permission denied, scandir'')
      (empty_state\<lparr>commands := [(''yt'', yt_command), (''ytdl'', yt_command)]\<rparr>)) = []"
  by (simp add: reload_commands_def loadCommands_def load_file_def handleError_def endsWith_def
        emit_def empty_state_def)

end
